theory Spec2Isabelle
  imports Main "HOL-Library.Multiset" "HOL-Library.AList"
begin

text \<open>
  A model of \<^verbatim>\<open>rss-rest-api.py\<close>: the entries and feeds, the feed store with its
  storage file, the retention sweep, the date normalizer, the query filter, the two
  aggregate documents and the endpoints that create feeds and entries. Every function of
  the source is a function here with the same name and the same branches; an exception
  the source can raise is a value \<open>Inl\<close> of the result. The rendering of a feed as XML
  and the routing of requests are not modelled. The operations are modelled one at a
  time: the sweep runs in a thread of its own and takes no lock, and what two operations
  do when they interleave is outside the model.
\<close>

section \<open>Python values and exceptions\<close>

text \<open>
  The program is dynamically typed: the fields of an entry or a feed hold whatever the
  request body or the storage file gave. The values modelled here are the JSON values
  \<^verbatim>\<open>null\<close>, strings, arrays and objects; JSON numbers and booleans are left out. A
  Python \<^verbatim>\<open>dict\<close> keeps insertion order, so an object is an association list (its keys
  distinct).
\<close>

datatype json = JNull | JStr string | JList "json list" | JObj "(string \<times> json) list"

datatype py_exn = KeyError | ValueError | TypeError | AttributeError | OverflowError

text \<open>Truth value of a Python object, as tested by \<^verbatim>\<open>or\<close> and \<^verbatim>\<open>if\<close>.\<close>

fun truthy :: "json \<Rightarrow> bool" where
  "truthy JNull = False"
| "truthy (JStr s) = (s \<noteq> [])"
| "truthy (JList xs) = (xs \<noteq> [])"
| "truthy (JObj kvs) = (kvs \<noteq> [])"

text \<open>\<^verbatim>\<open>a or b\<close>; \<^verbatim>\<open>b\<close> is evaluated only when \<^verbatim>\<open>a\<close> is falsy.\<close>

definition py_or :: "json \<Rightarrow> json \<Rightarrow> json" where
  "py_or a b = (if truthy a then a else b)"

text \<open>The slice \<^verbatim>\<open>xs[:n]\<close>: a negative \<^verbatim>\<open>n\<close> counts from the end of the list.\<close>

definition py_slice_to :: "'a list \<Rightarrow> int \<Rightarrow> 'a list" where
  "py_slice_to xs n =
     (if 0 \<le> n then take (nat n) xs else take (length xs - nat (- n)) xs)"

section \<open>The library and the environment\<close>

text \<open>
  A \<^verbatim>\<open>datetime\<close> is either naive (no time zone) or aware. Both are represented by a
  count of microseconds since 0001-01-01T00:00:00: wall-clock time for a naive value, UTC
  for an aware one. Ordering a naive against an aware value raises \<^verbatim>\<open>TypeError\<close>.
\<close>

datatype datetime = Naive int | Aware int

definition dt_cmp :: "(int \<Rightarrow> int \<Rightarrow> bool) \<Rightarrow> datetime \<Rightarrow> datetime \<Rightarrow> py_exn + bool" where
  "dt_cmp r a b =
     (case a of
        Naive x \<Rightarrow> (case b of Naive y \<Rightarrow> Inr (r x y) | Aware y \<Rightarrow> Inl TypeError)
      | Aware x \<Rightarrow> (case b of Naive y \<Rightarrow> Inl TypeError | Aware y \<Rightarrow> Inr (r x y)))"

definition dt_gt :: "datetime \<Rightarrow> datetime \<Rightarrow> py_exn + bool" where
  "dt_gt = dt_cmp (\<lambda>x y. x > y)"

definition dt_ge :: "datetime \<Rightarrow> datetime \<Rightarrow> py_exn + bool" where
  "dt_ge = dt_cmp (\<lambda>x y. x \<ge> y)"

definition dt_le :: "datetime \<Rightarrow> datetime \<Rightarrow> py_exn + bool" where
  "dt_le = dt_cmp (\<lambda>x y. x \<le> y)"

text \<open>
  What the program takes from outside itself. The library functions are parameters:
  \<^verbatim>\<open>datetime.strptime(s, fmt)\<close>, \<^verbatim>\<open>datetime.fromisoformat(s)\<close> and \<^verbatim>\<open>int(s)\<close> on a
  string either return a value or raise \<^verbatim>\<open>ValueError\<close> (\<open>None\<close> here);
  \<^verbatim>\<open>str.lower\<close>; \<^verbatim>\<open>str(v)\<close> for a value that is not a string. The two sources of
  nondeterminism are oracles indexed by the place of the call (which loop, which
  iteration): \<open>uuid4 p\<close> is what \<^verbatim>\<open>str(uuid.uuid4())\<close> returns there and \<open>now p\<close>
  what \<^verbatim>\<open>datetime.datetime.now()\<close> returns there, a naive instant in microseconds.
\<close>

record env =
  strptime :: "string \<Rightarrow> string \<Rightarrow> datetime option"
  fromisoformat :: "string \<Rightarrow> datetime option"
  int_of_str :: "string \<Rightarrow> int option"
  lower :: "string \<Rightarrow> string"
  str_of :: "json \<Rightarrow> string"
  uuid4 :: "nat list \<Rightarrow> string"
  now :: "nat list \<Rightarrow> int"

text \<open>Sequencing of computations that may raise.\<close>

definition bind_exn :: "py_exn + 'a \<Rightarrow> ('a \<Rightarrow> py_exn + 'b) \<Rightarrow> py_exn + 'b" where
  "bind_exn m f = (case m of Inl e \<Rightarrow> Inl e | Inr x \<Rightarrow> f x)"

text \<open>
  A list comprehension \<^verbatim>\<open>[x for x in xs if cond(x)]\<close> whose condition may raise: the
  elements are tested in order and the first exception ends the comprehension. The
  condition also gets the position of the element.
\<close>

fun keep_if :: "(nat \<Rightarrow> 'a \<Rightarrow> py_exn + bool) \<Rightarrow> nat \<Rightarrow> 'a list \<Rightarrow> py_exn + 'a list" where
  "keep_if c j [] = Inr []"
| "keep_if c j (x # xs) =
     bind_exn (c j x) (\<lambda>b. bind_exn (keep_if c (Suc j) xs) (\<lambda>ys. Inr (if b then x # ys else ys)))"

text \<open>\<^verbatim>\<open>data[key]\<close>, \<^verbatim>\<open>data.get(key, default)\<close>, \<^verbatim>\<open>key in data\<close> and iteration.\<close>

definition py_getitem :: "json \<Rightarrow> string \<Rightarrow> py_exn + json" where
  "py_getitem data key =
     (case data of
        JObj kvs \<Rightarrow> (case map_of kvs key of Some v \<Rightarrow> Inr v | None \<Rightarrow> Inl KeyError)
      | _ \<Rightarrow> Inl TypeError)"

definition py_get :: "json \<Rightarrow> string \<Rightarrow> json \<Rightarrow> py_exn + json" where
  "py_get data key dflt =
     (case data of
        JObj kvs \<Rightarrow> Inr (case map_of kvs key of Some v \<Rightarrow> v | None \<Rightarrow> dflt)
      | _ \<Rightarrow> Inl AttributeError)"

fun starts_with :: "'a list \<Rightarrow> 'a list \<Rightarrow> bool" where
  "starts_with [] ys = True"
| "starts_with (x # xs) [] = False"
| "starts_with (x # xs) (y # ys) = (x = y \<and> starts_with xs ys)"

text \<open>\<^verbatim>\<open>q in s\<close> for two strings: \<open>q\<close> occurs in \<open>s\<close> as a substring.\<close>

fun py_in_str :: "string \<Rightarrow> string \<Rightarrow> bool" where
  "py_in_str q [] = (q = [])"
| "py_in_str q (c # cs) = (starts_with q (c # cs) \<or> py_in_str q cs)"

definition py_in :: "string \<Rightarrow> json \<Rightarrow> py_exn + bool" where
  "py_in key data =
     (case data of
        JObj kvs \<Rightarrow> Inr (map_of kvs key \<noteq> None)
      | JList xs \<Rightarrow> Inr (JStr key \<in> set xs)
      | JStr s \<Rightarrow> Inr (py_in_str key s)
      | JNull \<Rightarrow> Inl TypeError)"

definition py_iter :: "json \<Rightarrow> py_exn + json list" where
  "py_iter data =
     (case data of
        JList xs \<Rightarrow> Inr xs
      | JObj kvs \<Rightarrow> Inr (map (\<lambda>kv. JStr (fst kv)) kvs)
      | JStr s \<Rightarrow> Inr (map (\<lambda>c. JStr [c]) s)
      | JNull \<Rightarrow> Inl TypeError)"

text \<open>\<^verbatim>\<open>v.lower()\<close>: only a string has the method.\<close>

definition py_lower :: "env \<Rightarrow> json \<Rightarrow> py_exn + string" where
  "py_lower w v = (case v of JStr s \<Rightarrow> Inr (lower w s) | _ \<Rightarrow> Inl AttributeError)"

text \<open>A value formatted inside an f-string.\<close>

definition py_str :: "env \<Rightarrow> json \<Rightarrow> string" where
  "py_str w v = (case v of JStr s \<Rightarrow> s | _ \<Rightarrow> str_of w v)"

section \<open>Entries and feeds\<close>

record FeedEntry =
  title :: json
  link :: json
  description :: json
  pub_date :: json
  guid :: json
  image_url :: json

record RssFeed =
  title :: json
  link :: json
  description :: json
  language :: json
  feed_id :: json
  entries :: "FeedEntry list"
  image_url :: json

text \<open>
  \<^verbatim>\<open>FeedEntry.__init__\<close>. The argument \<open>fresh\<close> is the string that
  \<^verbatim>\<open>str(uuid.uuid4())\<close> returns when it is evaluated, which happens only when the
  given guid is falsy (absent, \<^verbatim>\<open>None\<close> or empty).
\<close>

definition FeedEntry_init ::
  "string \<Rightarrow> json \<Rightarrow> json \<Rightarrow> json \<Rightarrow> json \<Rightarrow> json \<Rightarrow> json \<Rightarrow> FeedEntry" where
  "FeedEntry_init fresh t l d p g i =
     \<lparr>FeedEntry.title = t, FeedEntry.link = l, FeedEntry.description = d,
      FeedEntry.pub_date = p, FeedEntry.guid = py_or g (JStr fresh),
      FeedEntry.image_url = i\<rparr>"

text \<open>
  \<^verbatim>\<open>RssFeed.__init__\<close>; \<open>es\<close> is the \<^verbatim>\<open>entries\<close> argument (\<open>None\<close> when it is
  not given), and \<^verbatim>\<open>entries or []\<close> also replaces an empty list by a new one.
\<close>

definition RssFeed_init ::
  "string \<Rightarrow> json \<Rightarrow> json \<Rightarrow> json \<Rightarrow> json \<Rightarrow> json \<Rightarrow> FeedEntry list option \<Rightarrow> json
     \<Rightarrow> RssFeed" where
  "RssFeed_init fresh t l d lang fid es i =
     \<lparr>RssFeed.title = t, RssFeed.link = l, RssFeed.description = d,
      RssFeed.language = lang, RssFeed.feed_id = py_or fid (JStr fresh),
      RssFeed.entries = (case es of None \<Rightarrow> [] | Some xs \<Rightarrow> xs),
      RssFeed.image_url = i\<rparr>"

text \<open>
  \<^verbatim>\<open>RssFeed.add_entry\<close>. The first argument is the module constant
  \<^verbatim>\<open>MAX_ENTRIES_PER_FEED\<close>, an integer read from the environment when the module is
  loaded (100 by default).
\<close>

definition add_entry :: "int \<Rightarrow> RssFeed \<Rightarrow> FeedEntry \<Rightarrow> RssFeed" where
  "add_entry MAX_ENTRIES_PER_FEED feed entry =
     (let es = entry # RssFeed.entries feed
      in feed\<lparr>RssFeed.entries := (if int (length es) > MAX_ENTRIES_PER_FEED
                               then py_slice_to es MAX_ENTRIES_PER_FEED else es)\<rparr>)"

section \<open>Dictionaries of entries and feeds\<close>

definition FeedEntry_to_dict :: "FeedEntry \<Rightarrow> json" where
  "FeedEntry_to_dict e =
     JObj [(''title'', FeedEntry.title e), (''link'', FeedEntry.link e),
           (''description'', FeedEntry.description e), (''pubDate'', FeedEntry.pub_date e),
           (''guid'', FeedEntry.guid e), (''imageUrl'', FeedEntry.image_url e)]"

definition FeedEntry_from_dict :: "string \<Rightarrow> json \<Rightarrow> py_exn + FeedEntry" where
  "FeedEntry_from_dict fresh data =
     bind_exn (py_getitem data ''title'') (\<lambda>t.
     bind_exn (py_getitem data ''link'') (\<lambda>l.
     bind_exn (py_getitem data ''description'') (\<lambda>d.
     bind_exn (py_getitem data ''pubDate'') (\<lambda>p.
     bind_exn (py_get data ''guid'' JNull) (\<lambda>g.
     bind_exn (py_get data ''imageUrl'' JNull) (\<lambda>i.
       Inr (FeedEntry_init fresh t l d p g i)))))))"

definition RssFeed_to_dict :: "RssFeed \<Rightarrow> json" where
  "RssFeed_to_dict f =
     JObj [(''feedId'', RssFeed.feed_id f), (''title'', RssFeed.title f),
           (''link'', RssFeed.link f), (''description'', RssFeed.description f),
           (''language'', RssFeed.language f), (''imageUrl'', RssFeed.image_url f),
           (''entries'', JList (map FeedEntry_to_dict (RssFeed.entries f)))]"

text \<open>
  \<^verbatim>\<open>[FeedEntry.from_dict(entry) for entry in ...]\<close>; the entry at position \<open>j\<close> would
  draw the identifier \<open>fresh j\<close>.
\<close>

fun entries_from_dicts :: "(nat \<Rightarrow> string) \<Rightarrow> nat \<Rightarrow> json list \<Rightarrow> py_exn + FeedEntry list" where
  "entries_from_dicts fresh j [] = Inr []"
| "entries_from_dicts fresh j (x # xs) =
     bind_exn (FeedEntry_from_dict (fresh j) x) (\<lambda>e.
     bind_exn (entries_from_dicts fresh (Suc j) xs) (\<lambda>es. Inr (e # es)))"

text \<open>
  \<^verbatim>\<open>RssFeed.from_dict\<close>; \<open>fresh 0\<close> is the identifier the feed would draw and
  \<open>fresh (Suc j)\<close> the one its entry at position \<open>j\<close> would draw.
\<close>

definition RssFeed_from_dict :: "(nat \<Rightarrow> string) \<Rightarrow> json \<Rightarrow> py_exn + RssFeed" where
  "RssFeed_from_dict fresh data =
     bind_exn (py_getitem data ''title'') (\<lambda>t.
     bind_exn (py_getitem data ''link'') (\<lambda>l.
     bind_exn (py_getitem data ''description'') (\<lambda>d.
     bind_exn (py_get data ''language'' (JStr ''en-US'')) (\<lambda>lang.
     bind_exn (py_get data ''feedId'' JNull) (\<lambda>fid.
     bind_exn (py_get data ''imageUrl'' JNull) (\<lambda>i.
     bind_exn (py_get data ''entries'' (JList [])) (\<lambda>ents.
     bind_exn (py_iter ents) (\<lambda>xs.
     bind_exn (entries_from_dicts (\<lambda>j. fresh (Suc j)) 0 xs) (\<lambda>es.
       Inr ((RssFeed_init (fresh 0) t l d lang fid None i)\<lparr>RssFeed.entries := es\<rparr>))))))))))"

section \<open>The feed store\<close>

text \<open>
  \<^verbatim>\<open>FeedStorage.feeds\<close> is a \<^verbatim>\<open>dict\<close> from feed id to feed; its keys are the strings
  of the storage file or the identifiers generated at creation. The storage file is
  absent, or not JSON, or holds a JSON document (\<^verbatim>\<open>json.load\<close> and \<^verbatim>\<open>json.dump\<close>
  are taken to be inverse to each other on documents).
\<close>

type_synonym store = "(string \<times> RssFeed) list"

datatype storage_file = NoFile | NotJson | Document json

text \<open>
  The dictionary comprehension of \<^verbatim>\<open>load\<close>; the feed at position \<open>i\<close> draws its
  identifiers from \<open>uuid4 w (i # _)\<close>.
\<close>

fun feeds_from_items :: "env \<Rightarrow> nat \<Rightarrow> (string \<times> json) list \<Rightarrow> py_exn + store" where
  "feeds_from_items w i [] = Inr []"
| "feeds_from_items w i (kv # kvs) =
     bind_exn (RssFeed_from_dict (\<lambda>j. uuid4 w [i, j]) (snd kv)) (\<lambda>f.
     bind_exn (feeds_from_items w (Suc i) kvs) (\<lambda>fs. Inr ((fst kv, f) # fs)))"

text \<open>
  The body of the \<^verbatim>\<open>try\<close> in \<^verbatim>\<open>load\<close> once \<^verbatim>\<open>json.load\<close> has returned
  \<open>data\<close>; \<^verbatim>\<open>data.items()\<close> needs a dictionary.
\<close>

definition load_try :: "env \<Rightarrow> json \<Rightarrow> py_exn + store" where
  "load_try w data =
     (case data of
        JObj kvs \<Rightarrow> feeds_from_items w 0 kvs
      | _ \<Rightarrow> Inl AttributeError)"

text \<open>\<^verbatim>\<open>FeedStorage.load\<close>: the new value of \<^verbatim>\<open>self.feeds\<close>.\<close>

definition load :: "env \<Rightarrow> storage_file \<Rightarrow> store" where
  "load w file =
     (case file of
        NoFile \<Rightarrow> []
      | NotJson \<Rightarrow> []
      | Document data \<Rightarrow> (case load_try w data of Inr fs \<Rightarrow> fs | Inl e \<Rightarrow> []))"

text \<open>\<^verbatim>\<open>FeedStorage.save\<close>: the document written to the storage file.\<close>

definition save :: "store \<Rightarrow> storage_file" where
  "save feeds = Document (JObj (map (\<lambda>kf. (fst kf, RssFeed_to_dict (snd kf))) feeds))"

definition get_feed :: "store \<Rightarrow> string \<Rightarrow> RssFeed option" where
  "get_feed feeds fid = map_of feeds fid"

text \<open>
  The storage operations that change the store return the new store and the documents
  they wrote, one for each call of \<^verbatim>\<open>save\<close>. \<^verbatim>\<open>add_feed\<close> is only called with a feed
  that has just been constructed without a feed id, so its id is the generated string
  (the constructor leaves no falsy id, and a list or an object cannot be a key). A write
  that fails is caught inside \<^verbatim>\<open>save\<close> and changes nothing here.
\<close>

definition add_feed :: "store \<Rightarrow> RssFeed \<Rightarrow> py_exn + store \<times> storage_file list \<times> json" where
  "add_feed feeds feed =
     (case RssFeed.feed_id feed of
        JStr k \<Rightarrow> (let feeds' = AList.update k feed feeds
                   in Inr (feeds', [save feeds'], JStr k))
      | _ \<Rightarrow> Inl TypeError)"

definition delete_feed :: "store \<Rightarrow> string \<Rightarrow> store \<times> storage_file list \<times> bool" where
  "delete_feed feeds fid =
     (if map_of feeds fid \<noteq> None
      then (let feeds' = AList.delete fid feeds in (feeds', [save feeds'], True))
      else (feeds, [], False))"

definition add_entry_to_feed ::
  "int \<Rightarrow> store \<Rightarrow> string \<Rightarrow> FeedEntry \<Rightarrow> store \<times> storage_file list \<times> bool" where
  "add_entry_to_feed MAX_ENTRIES_PER_FEED feeds fid entry =
     (case get_feed feeds fid of
        Some feed \<Rightarrow>
          (let feeds' = AList.update fid (add_entry MAX_ENTRIES_PER_FEED feed entry) feeds
           in (feeds', [save feeds'], True))
      | None \<Rightarrow> (feeds, [], False))"

section \<open>The date normalizer\<close>

definition formats :: "string list" where
  "formats = [''%a, %d %b %Y %H:%M:%S %Z'', ''%a, %d %b %Y %H:%M:%S GMT'',
              ''%a, %d %b %Y %H:%M:%S +0000'', ''%Y-%m-%dT%H:%M:%S%z'',
              ''%Y-%m-%dT%H:%M:%SZ'']"

text \<open>The loop over the formats: the first one that parses returns.\<close>

fun try_formats :: "(string \<Rightarrow> datetime option) \<Rightarrow> string list \<Rightarrow> datetime option" where
  "try_formats parse [] = None"
| "try_formats parse (fmt # fmts) =
     (case parse fmt of Some d \<Rightarrow> Some d | None \<Rightarrow> try_formats parse fmts)"

text \<open>
  The body of the outer \<^verbatim>\<open>try\<close> of \<^verbatim>\<open>_parse_date\<close>. \<^verbatim>\<open>strptime\<close> raises
  \<^verbatim>\<open>TypeError\<close>, which the loop does not catch, when its argument is not a string.
\<close>

definition parse_date_try :: "env \<Rightarrow> nat list \<Rightarrow> json \<Rightarrow> py_exn + datetime" where
  "parse_date_try w p date_str =
     (case date_str of
        JStr s \<Rightarrow> (case try_formats (strptime w s) formats of
                     Some d \<Rightarrow> Inr d
                   | None \<Rightarrow> Inr (Naive (now w p)))
      | _ \<Rightarrow> Inl TypeError)"

text \<open>\<^verbatim>\<open>FeedStorage._parse_date\<close>, called at the place \<open>p\<close>.\<close>

definition parse_date :: "env \<Rightarrow> nat list \<Rightarrow> json \<Rightarrow> py_exn + datetime" where
  "parse_date w p date_str =
     (case parse_date_try w p date_str of
        Inr d \<Rightarrow> Inr d
      | Inl e \<Rightarrow> Inr (Naive (now w p)))"

section \<open>The retention sweep\<close>

text \<open>
  \<^verbatim>\<open>now - datetime.timedelta(days=HISTORY_DAYS)\<close>: a \<^verbatim>\<open>timedelta\<close> holds at most
  999999999 days and a \<^verbatim>\<open>datetime\<close> lies in the years 1 to 9999.
\<close>

definition max_datetime :: int where
  "max_datetime = 3652059 * 86400000000 - 1"

definition cutoff_date :: "int \<Rightarrow> int \<Rightarrow> py_exn + datetime" where
  "cutoff_date t HISTORY_DAYS =
     (if \<bar>HISTORY_DAYS\<bar> > 999999999 then Inl OverflowError
      else (let c = t - HISTORY_DAYS * 86400000000
            in if c < 0 \<or> c > max_datetime then Inl OverflowError else Inr (Naive c)))"

text \<open>
  The loop over the feeds: the feeds as they are when the loop ends, the flag
  \<^verbatim>\<open>feeds_modified\<close>, and the exception that ended the loop, if any. A feed whose
  comprehension raises keeps its entries, and so do the feeds after it.
\<close>

fun cleanup_loop ::
  "env \<Rightarrow> datetime \<Rightarrow> nat \<Rightarrow> store \<Rightarrow> bool \<Rightarrow> store \<times> bool \<times> py_exn option" where
  "cleanup_loop w cutoff i [] modified = ([], modified, None)"
| "cleanup_loop w cutoff i (kf # kfs) modified =
     (case keep_if (\<lambda>j e. bind_exn (parse_date w [Suc i, j] (FeedEntry.pub_date e))
                                    (\<lambda>d. dt_gt d cutoff))
                   0 (RssFeed.entries (snd kf)) of
        Inl e \<Rightarrow> (kf # kfs, modified, Some e)
      | Inr es \<Rightarrow>
          (case cleanup_loop w cutoff (Suc i) kfs
                  (modified \<or> length es < length (RssFeed.entries (snd kf))) of
             (kfs', m, x) \<Rightarrow> ((fst kf, (snd kf)\<lparr>RssFeed.entries := es\<rparr>) # kfs', m, x)))"

text \<open>
  One iteration of the \<^verbatim>\<open>while True\<close> loop of \<^verbatim>\<open>_cleanup_old_entries\<close>: the store
  after it, the documents it wrote, and the seconds it then sleeps.
\<close>

definition cleanup_old_entries ::
  "env \<Rightarrow> int \<Rightarrow> store \<Rightarrow> store \<times> storage_file list \<times> nat" where
  "cleanup_old_entries w HISTORY_DAYS feeds =
     (case cutoff_date (now w [0]) HISTORY_DAYS of
        Inl e \<Rightarrow> (feeds, [], 3600)
      | Inr cutoff \<Rightarrow>
          (case cleanup_loop w cutoff 0 feeds False of
             (feeds', modified, Some e) \<Rightarrow> (feeds', [], 3600)
           | (feeds', modified, None) \<Rightarrow>
               (feeds', if modified then [save feeds'] else [], 86400)))"

section \<open>The query filter\<close>

text \<open>
  The query parameters are a dictionary from strings to strings. Each of the following
  functions is one \<^verbatim>\<open>if\<close> block of the loop body of \<^verbatim>\<open>filter_feeds\<close>, in the order
  of the source. A date block catches \<^verbatim>\<open>ValueError\<close> only.
\<close>

type_synonym query = "(string \<times> string) list"

definition filter_title :: "env \<Rightarrow> query \<Rightarrow> FeedEntry list \<Rightarrow> py_exn + FeedEntry list" where
  "filter_title w q es =
     (case map_of q ''title'' of
        None \<Rightarrow> Inr es
      | Some t \<Rightarrow>
          keep_if (\<lambda>j e. bind_exn (py_lower w (FeedEntry.title e))
                                  (\<lambda>s. Inr (py_in_str (lower w t) s))) 0 es)"

definition filter_description :: "env \<Rightarrow> query \<Rightarrow> FeedEntry list \<Rightarrow> py_exn + FeedEntry list" where
  "filter_description w q es =
     (case map_of q ''description'' of
        None \<Rightarrow> Inr es
      | Some t \<Rightarrow>
          keep_if (\<lambda>j e. bind_exn (py_lower w (FeedEntry.description e))
                                  (\<lambda>s. Inr (py_in_str (lower w t) s))) 0 es)"

definition filter_from_date ::
  "env \<Rightarrow> nat \<Rightarrow> query \<Rightarrow> FeedEntry list \<Rightarrow> py_exn + FeedEntry list" where
  "filter_from_date w i q es =
     (case map_of q ''from_date'' of
        None \<Rightarrow> Inr es
      | Some s \<Rightarrow>
          (case fromisoformat w s of
             None \<Rightarrow> Inr es
           | Some from_date \<Rightarrow>
               (case keep_if (\<lambda>j e. bind_exn (parse_date w [i, 0, j] (FeedEntry.pub_date e))
                                             (\<lambda>d. dt_ge d from_date)) 0 es of
                  Inr es' \<Rightarrow> Inr es'
                | Inl e \<Rightarrow> if e = ValueError then Inr es else Inl e)))"

definition filter_to_date ::
  "env \<Rightarrow> nat \<Rightarrow> query \<Rightarrow> FeedEntry list \<Rightarrow> py_exn + FeedEntry list" where
  "filter_to_date w i q es =
     (case map_of q ''to_date'' of
        None \<Rightarrow> Inr es
      | Some s \<Rightarrow>
          (case fromisoformat w s of
             None \<Rightarrow> Inr es
           | Some to_date \<Rightarrow>
               (case keep_if (\<lambda>j e. bind_exn (parse_date w [i, 1, j] (FeedEntry.pub_date e))
                                             (\<lambda>d. dt_le d to_date)) 0 es of
                  Inr es' \<Rightarrow> Inr es'
                | Inl e \<Rightarrow> if e = ValueError then Inr es else Inl e)))"

definition filter_limit :: "env \<Rightarrow> query \<Rightarrow> FeedEntry list \<Rightarrow> FeedEntry list" where
  "filter_limit w q es =
     (case map_of q ''limit'' of
        None \<Rightarrow> es
      | Some s \<Rightarrow> (case int_of_str w s of None \<Rightarrow> es | Some limit \<Rightarrow> py_slice_to es limit))"

text \<open>
  The loop body up to \<^verbatim>\<open>feed_copy.entries = filtered_entries\<close>, for the feed at
  position \<open>i\<close> of the store: the copy of the feed with the filtered entries.
\<close>

definition filter_feed :: "env \<Rightarrow> nat \<Rightarrow> query \<Rightarrow> RssFeed \<Rightarrow> py_exn + RssFeed" where
  "filter_feed w i q feed =
     (let feed_copy = RssFeed_init (uuid4 w [i]) (RssFeed.title feed) (RssFeed.link feed)
                        (RssFeed.description feed) (RssFeed.language feed)
                        (RssFeed.feed_id feed) None (RssFeed.image_url feed)
      in bind_exn (filter_title w q (RssFeed.entries feed)) (\<lambda>es1.
         bind_exn (filter_description w q es1) (\<lambda>es2.
         bind_exn (filter_from_date w i q es2) (\<lambda>es3.
         bind_exn (filter_to_date w i q es3) (\<lambda>es4.
           Inr (feed_copy\<lparr>RssFeed.entries := filter_limit w q es4\<rparr>))))))"

text \<open>\<^verbatim>\<open>query_params.get('include_empty', 'false').lower() == 'true'\<close>\<close>

definition include_empty :: "env \<Rightarrow> query \<Rightarrow> bool" where
  "include_empty w q =
     (lower w (case map_of q ''include_empty'' of None \<Rightarrow> ''false'' | Some v \<Rightarrow> v) = ''true'')"

text \<open>The loop of \<^verbatim>\<open>filter_feeds\<close> with its accumulator \<^verbatim>\<open>filtered_feeds\<close>.\<close>

fun filter_feeds_loop ::
  "env \<Rightarrow> query \<Rightarrow> nat \<Rightarrow> store \<Rightarrow> RssFeed list \<Rightarrow> py_exn + RssFeed list" where
  "filter_feeds_loop w q i [] filtered_feeds = Inr filtered_feeds"
| "filter_feeds_loop w q i (kf # kfs) filtered_feeds =
     bind_exn (filter_feed w i q (snd kf)) (\<lambda>feed_copy.
       filter_feeds_loop w q (Suc i) kfs
         (if RssFeed.entries feed_copy \<noteq> [] \<or> include_empty w q
          then filtered_feeds @ [feed_copy] else filtered_feeds))"

definition filter_feeds :: "env \<Rightarrow> query \<Rightarrow> store \<Rightarrow> py_exn + RssFeed list" where
  "filter_feeds w q feeds = filter_feeds_loop w q 0 feeds []"

section \<open>Aggregate feeds\<close>

text \<open>
  The two nested loops that both aggregate endpoints run over a list of feeds: every
  entry is copied with the title \<^verbatim>\<open>f"[{feed.title}] {entry.title}"\<close> and given to
  \<^verbatim>\<open>add_entry\<close> of the combined feed.
\<close>

definition entry_copy :: "env \<Rightarrow> nat list \<Rightarrow> RssFeed \<Rightarrow> FeedEntry \<Rightarrow> FeedEntry" where
  "entry_copy w p feed entry =
     FeedEntry_init (uuid4 w p)
       (JStr (''['' @ py_str w (RssFeed.title feed) @ ''] '' @ py_str w (FeedEntry.title entry)))
       (FeedEntry.link entry) (FeedEntry.description entry) (FeedEntry.pub_date entry)
       (FeedEntry.guid entry) (FeedEntry.image_url entry)"

fun add_copies ::
  "env \<Rightarrow> int \<Rightarrow> nat \<Rightarrow> RssFeed \<Rightarrow> nat \<Rightarrow> FeedEntry list \<Rightarrow> RssFeed \<Rightarrow> RssFeed" where
  "add_copies w M i feed j [] combined_feed = combined_feed"
| "add_copies w M i feed j (entry # es) combined_feed =
     add_copies w M i feed (Suc j) es (add_entry M combined_feed (entry_copy w [i, j] feed entry))"

fun combine_feeds :: "env \<Rightarrow> int \<Rightarrow> nat \<Rightarrow> RssFeed list \<Rightarrow> RssFeed \<Rightarrow> RssFeed" where
  "combine_feeds w M i [] combined_feed = combined_feed"
| "combine_feeds w M i (feed # feeds) combined_feed =
     combine_feeds w M (Suc i) feeds
       (add_copies w M i feed 0 (RssFeed.entries feed) combined_feed)"

text \<open>
  \<^verbatim>\<open>entries.sort(key=..., reverse=True)\<close>. The keys are computed first, one call of
  the key function for each entry in list order. The sort is stable, also when reversed,
  and it cannot order a list that holds both naive and aware keys: some comparison then
  meets one of each kind and raises \<^verbatim>\<open>TypeError\<close>.
\<close>

fun date_keys :: "env \<Rightarrow> nat \<Rightarrow> FeedEntry list \<Rightarrow> py_exn + (datetime \<times> FeedEntry) list" where
  "date_keys w j [] = Inr []"
| "date_keys w j (e # es) =
     bind_exn (parse_date w [j] (FeedEntry.pub_date e)) (\<lambda>d.
     bind_exn (date_keys w (Suc j) es) (\<lambda>kes. Inr ((d, e) # kes)))"

fun is_naive :: "datetime \<Rightarrow> bool" where
  "is_naive (Naive t) = True"
| "is_naive (Aware t) = False"

fun stamp :: "datetime \<Rightarrow> int" where
  "stamp (Naive t) = t"
| "stamp (Aware t) = t"

definition sort_reverse :: "(datetime \<times> 'a) list \<Rightarrow> py_exn + 'a list" where
  "sort_reverse kxs =
     (if list_all (\<lambda>kx. is_naive (fst kx)) kxs \<or> list_all (\<lambda>kx. \<not> is_naive (fst kx)) kxs
      then Inr (map snd (sort_key (\<lambda>kx. - stamp (fst kx)) kxs))
      else Inl TypeError)"

text \<open>
  \<^verbatim>\<open>get_all_feeds_xml\<close> up to the sort: the combined feed with the copies. The
  arguments after the bound are \<^verbatim>\<open>GENERAL_FEED_TITLE\<close> and \<^verbatim>\<open>request.host_url\<close>.
\<close>

definition all_feeds_combined :: "env \<Rightarrow> int \<Rightarrow> string \<Rightarrow> string \<Rightarrow> store \<Rightarrow> RssFeed" where
  "all_feeds_combined w M GENERAL_FEED_TITLE host_url feeds =
     combine_feeds w M 0 (map snd feeds)
       (RssFeed_init (uuid4 w []) (JStr GENERAL_FEED_TITLE) (JStr host_url)
          (JStr ''Combination of all available feeds'') (JStr ''en-US'') JNull None JNull)"

text \<open>\<^verbatim>\<open>get_all_feeds_xml\<close>: the sorted combined feed that is handed to \<^verbatim>\<open>to_xml\<close>.\<close>

definition get_all_feeds_xml :: "env \<Rightarrow> int \<Rightarrow> string \<Rightarrow> string \<Rightarrow> store \<Rightarrow> py_exn + RssFeed" where
  "get_all_feeds_xml w M GENERAL_FEED_TITLE host_url feeds =
     (let combined_feed = all_feeds_combined w M GENERAL_FEED_TITLE host_url feeds
      in bind_exn (date_keys w 0 (RssFeed.entries combined_feed)) (\<lambda>kes.
         bind_exn (sort_reverse kes) (\<lambda>es.
           Inr (combined_feed\<lparr>RssFeed.entries := es\<rparr>))))"

text \<open>
  \<^verbatim>\<open>search_feeds\<close>: with \<^verbatim>\<open>format=xml\<close> the combined feed handed to \<^verbatim>\<open>to_xml\<close>,
  otherwise the dictionaries of the filtered feeds (the body also repeats their number and
  the query).
\<close>

datatype search_result = AsXml RssFeed | AsJson "json list"

definition search_feeds :: "env \<Rightarrow> int \<Rightarrow> string \<Rightarrow> query \<Rightarrow> store \<Rightarrow> py_exn + search_result" where
  "search_feeds w M url q feeds =
     bind_exn (filter_feeds w q feeds) (\<lambda>filtered_feeds.
       if lower w (case map_of q ''format'' of None \<Rightarrow> ''json'' | Some v \<Rightarrow> v) = ''xml''
       then Inr (AsXml (combine_feeds w M 0 filtered_feeds
              (RssFeed_init (uuid4 w []) (JStr ''Search Results'') (JStr url)
                 (JStr (''Feeds filtered by parameters: ''
                        @ str_of w (JObj (map (\<lambda>kv. (fst kv, JStr (snd kv))) q))))
                 (JStr ''en-US'') JNull None JNull)))
       else Inr (AsJson (map RssFeed_to_dict filtered_feeds)))"

section \<open>The endpoints that create feeds and entries\<close>

datatype response = Json200 json | Json201 json | Json400 string | Json404 string | Json500

text \<open>The validation loop: the first required field that is not \<^verbatim>\<open>in data\<close>.\<close>

fun missing_field :: "string list \<Rightarrow> json \<Rightarrow> py_exn + string option" where
  "missing_field [] data = Inr None"
| "missing_field (field # rest) data =
     bind_exn (py_in field data) (\<lambda>b. if b then missing_field rest data else Inr (Some field))"

text \<open>\<^verbatim>\<open>all(k in entry_data for k in [...])\<close>, which stops at the first missing key.\<close>

fun all_in :: "string list \<Rightarrow> json \<Rightarrow> py_exn + bool" where
  "all_in [] data = Inr True"
| "all_in (k # ks) data = bind_exn (py_in k data) (\<lambda>b. if b then all_in ks data else Inr False)"

text \<open>
  The loop of \<^verbatim>\<open>create_feed\<close> over the initial entries. Both endpoints build an
  entry from the request with the constructor call that \<^verbatim>\<open>FeedEntry.from_dict\<close> makes
  (the same keys, read the same way), so \<open>FeedEntry_from_dict\<close> stands for it.
\<close>

fun add_initial_entries :: "env \<Rightarrow> int \<Rightarrow> nat \<Rightarrow> json list \<Rightarrow> RssFeed \<Rightarrow> py_exn + RssFeed" where
  "add_initial_entries w M j [] feed = Inr feed"
| "add_initial_entries w M j (entry_data # rest) feed =
     bind_exn (all_in [''title'', ''link'', ''description'', ''pubDate''] entry_data) (\<lambda>ok.
       if ok
       then bind_exn (FeedEntry_from_dict (uuid4 w [Suc j]) entry_data) (\<lambda>entry.
              add_initial_entries w M (Suc j) rest (add_entry M feed entry))
       else add_initial_entries w M (Suc j) rest feed)"

definition create_feed_try ::
  "env \<Rightarrow> int \<Rightarrow> store \<Rightarrow> json \<Rightarrow> py_exn + store \<times> storage_file list \<times> response" where
  "create_feed_try w M feeds data =
     bind_exn (missing_field [''title'', ''link'', ''description''] data) (\<lambda>missing.
       case missing of
         Some field \<Rightarrow> Inr (feeds, [], Json400 (''Missing required field: '' @ field))
       | None \<Rightarrow>
           bind_exn (py_getitem data ''title'') (\<lambda>t.
           bind_exn (py_getitem data ''link'') (\<lambda>l.
           bind_exn (py_getitem data ''description'') (\<lambda>d.
           bind_exn (py_get data ''language'' (JStr ''en-US'')) (\<lambda>lang.
           bind_exn (py_get data ''imageUrl'' JNull) (\<lambda>img.
           bind_exn (py_get data ''entries'' (JList [])) (\<lambda>ents.
           bind_exn (py_iter ents) (\<lambda>xs.
           bind_exn (add_initial_entries w M 0 xs
                       (RssFeed_init (uuid4 w [0]) t l d lang JNull None img)) (\<lambda>feed.
           bind_exn (add_feed feeds feed) (\<lambda>r.
             case r of (feeds', docs, fid) \<Rightarrow>
               Inr (feeds', docs,
                    Json201 (JObj [(''message'', JStr ''Feed created successfully''),
                                   (''feedId'', fid)]))))))))))))"

text \<open>\<^verbatim>\<open>create_feed\<close>: any exception becomes the answer 500.\<close>

definition create_feed :: "env \<Rightarrow> int \<Rightarrow> store \<Rightarrow> json \<Rightarrow> store \<times> storage_file list \<times> response" where
  "create_feed w M feeds data =
     (case create_feed_try w M feeds data of Inr r \<Rightarrow> r | Inl e \<Rightarrow> (feeds, [], Json500))"

definition add_feed_entry_try ::
  "env \<Rightarrow> int \<Rightarrow> store \<Rightarrow> string \<Rightarrow> json \<Rightarrow> py_exn + store \<times> storage_file list \<times> response" where
  "add_feed_entry_try w M feeds fid data =
     (case get_feed feeds fid of
        None \<Rightarrow> Inr (feeds, [], Json404 ''Feed not found'')
      | Some feed \<Rightarrow>
          bind_exn (missing_field [''title'', ''link'', ''description'', ''pubDate''] data)
            (\<lambda>missing.
               case missing of
                 Some field \<Rightarrow> Inr (feeds, [], Json400 (''Missing required field: '' @ field))
               | None \<Rightarrow>
                   bind_exn (FeedEntry_from_dict (uuid4 w []) data) (\<lambda>entry.
                     case add_entry_to_feed M feeds fid entry of
                       (feeds', docs, found) \<Rightarrow>
                         Inr (feeds', docs,
                              Json200 (JObj [(''message'', JStr ''Entry added successfully''),
                                             (''entryId'', FeedEntry.guid entry)])))))"

definition add_feed_entry ::
  "env \<Rightarrow> int \<Rightarrow> store \<Rightarrow> string \<Rightarrow> json \<Rightarrow> store \<times> storage_file list \<times> response" where
  "add_feed_entry w M feeds fid data =
     (case add_feed_entry_try w M feeds fid data of
        Inr r \<Rightarrow> r
      | Inl e \<Rightarrow> (feeds, [], Json500))"

section \<open>A concrete environment for the worked examples\<close>

text \<open>
  The library functions on the strings the examples use, tabulated from the library:
  \<^verbatim>\<open>strptime\<close> reads the RFC 822 dates with the first format (a naive value) and
  \<^verbatim>\<open>2020-01-01T00:00:00+0000\<close> with the fourth (an aware value); every other pair
  raises \<^verbatim>\<open>ValueError\<close>. \<^verbatim>\<open>str.lower\<close> is given on ASCII letters, \<^verbatim>\<open>str\<close> on
  \<^verbatim>\<open>None\<close> and on the one dictionary the examples format. The clock of the examples
  stands at 2024-06-15T12:00:00.
\<close>

definition rfc822 :: string where
  "rfc822 = ''%a, %d %b %Y %H:%M:%S %Z''"

definition ex_strptime :: "string \<Rightarrow> string \<Rightarrow> datetime option" where
  "ex_strptime s fmt =
     (if fmt = rfc822 \<and> s = ''Mon, 01 Jan 2024 00:00:00 GMT'' then Some (Naive 63839664000000000)
      else if fmt = rfc822 \<and> s = ''Sat, 01 Jun 2024 00:00:00 GMT'' then Some (Naive 63852796800000000)
      else if fmt = rfc822 \<and> s = ''Mon, 06 May 2024 12:00:00 GMT'' then Some (Naive 63850593600000000)
      else if fmt = rfc822 \<and> s = ''Wed, 05 Jun 2024 12:00:00 GMT'' then Some (Naive 63853185600000000)
      else if fmt = ''%Y-%m-%dT%H:%M:%S%z'' \<and> s = ''2020-01-01T00:00:00+0000''
        then Some (Aware 63713433600000000)
      else None)"

definition ex_fromisoformat :: "string \<Rightarrow> datetime option" where
  "ex_fromisoformat s =
     (if s = ''2024-03-01'' then Some (Naive 63844848000000000)
      else if s = ''2024-03-01T00:00:00+00:00'' then Some (Aware 63844848000000000)
      else None)"

definition ex_int :: "string \<Rightarrow> int option" where
  "ex_int s = (if s = ''1'' then Some 1 else if s = ''-1'' then Some (- 1) else None)"

definition ex_lower_char :: "char \<Rightarrow> char" where
  "ex_lower_char c =
     (case map_of (zip ''ABCDEFGHIJKLMNOPQRSTUVWXYZ'' ''abcdefghijklmnopqrstuvwxyz'') c of
        Some l \<Rightarrow> l
      | None \<Rightarrow> c)"

definition ex_str_of :: "json \<Rightarrow> string" where
  "ex_str_of v = (if v = JObj [(''format'', JStr ''xml'')] then ''{'format': 'xml'}'' else ''None'')"

definition ex_id :: string where
  "ex_id = ''00000000-0000-4000-8000-000000000000''"

definition ex_env :: env where
  "ex_env = \<lparr>strptime = ex_strptime, fromisoformat = ex_fromisoformat, int_of_str = ex_int,
             lower = map ex_lower_char, str_of = ex_str_of,
             uuid4 = (\<lambda>p. ex_id),
             now = (\<lambda>p. 63854049600000000)\<rparr>"

definition january :: string where
  "january = ''Mon, 01 Jan 2024 00:00:00 GMT''"

definition june :: string where
  "june = ''Sat, 01 Jun 2024 00:00:00 GMT''"

definition ex_entry :: "string \<Rightarrow> string \<Rightarrow> string \<Rightarrow> FeedEntry" where
  "ex_entry t p g =
     \<lparr>FeedEntry.title = JStr t, FeedEntry.link = JStr ''http://example.org/item'',
      FeedEntry.description = JStr ''text'', FeedEntry.pub_date = JStr p,
      FeedEntry.guid = JStr g, FeedEntry.image_url = JNull\<rparr>"

definition ex_feed :: "string \<Rightarrow> string \<Rightarrow> FeedEntry list \<Rightarrow> RssFeed" where
  "ex_feed fid t es =
     \<lparr>RssFeed.title = JStr t, RssFeed.link = JStr ''http://example.org'',
      RssFeed.description = JStr ''a feed'', RssFeed.language = JStr ''en-US'',
      RssFeed.feed_id = JStr fid, RssFeed.entries = es, RssFeed.image_url = JNull\<rparr>"


definition ex_entry_data :: "string \<Rightarrow> string \<Rightarrow> string \<Rightarrow> json" where
  "ex_entry_data t p g =
     JObj [(''title'', JStr t), (''link'', JStr ''http://example.org/item''),
           (''description'', JStr ''text''), (''pubDate'', JStr p), (''guid'', JStr g)]"

definition ex_feed_data :: "string \<Rightarrow> json list \<Rightarrow> json" where
  "ex_feed_data t es =
     JObj [(''title'', JStr t), (''link'', JStr ''http://example.org''),
           (''description'', JStr ''a feed''), (''entries'', JList es)]"

section \<open>Properties used in the statements\<close>

text \<open>
  Every entry and every feed is built by its constructor, so its identifier is truthy:
  the given one, or a generated one, and \<^verbatim>\<open>str(uuid.uuid4())\<close> is never empty.
\<close>

definition has_ids :: "RssFeed \<Rightarrow> bool" where
  "has_ids feed =
     (truthy (RssFeed.feed_id feed) \<and> list_all (\<lambda>e. truthy (FeedEntry.guid e)) (RssFeed.entries feed))"

definition uuid_ok :: "env \<Rightarrow> bool" where
  "uuid_ok w = (\<forall>p. uuid4 w p \<noteq> [])"

text \<open>
  The stores the process can hold, for a bound \<open>M\<close> and a retention window \<open>H\<close>: the
  store loaded at start, and what creating a feed, appending an entry, deleting a feed and
  an iteration of the sweep make of a store the process can hold.
\<close>

inductive reachable :: "int \<Rightarrow> int \<Rightarrow> store \<Rightarrow> bool" for M :: int and H :: int where
  start: "uuid_ok w \<Longrightarrow> reachable M H (load w file)"
| create: "reachable M H s \<Longrightarrow> uuid_ok w \<Longrightarrow> reachable M H (fst (create_feed w M s data))"
| append: "reachable M H s \<Longrightarrow> uuid_ok w \<Longrightarrow> reachable M H (fst (add_feed_entry w M s fid data))"
| delete: "reachable M H s \<Longrightarrow> reachable M H (fst (delete_feed s fid))"
| sweep: "reachable M H s \<Longrightarrow> reachable M H (fst (cleanup_old_entries w H s))"

text \<open>
  The copies the aggregate endpoints make, in the order of the merge: feed after feed in
  the order given, and the entries of a feed from first to last.
\<close>

fun copies :: "env \<Rightarrow> nat \<Rightarrow> RssFeed \<Rightarrow> nat \<Rightarrow> FeedEntry list \<Rightarrow> FeedEntry list" where
  "copies w i feed j [] = []"
| "copies w i feed j (e # es) = entry_copy w [i, j] feed e # copies w i feed (Suc j) es"

fun all_copies :: "env \<Rightarrow> nat \<Rightarrow> RssFeed list \<Rightarrow> FeedEntry list" where
  "all_copies w i [] = []"
| "all_copies w i (feed # feeds) =
     copies w i feed 0 (RssFeed.entries feed) @ all_copies w (Suc i) feeds"

text \<open>
  What the sweep leaves of a store when no comparison raises: \<open>normalized\<close> is the
  instant the normalizer returns for an entry, \<open>naive_date\<close> says that it carries no time
  zone, and \<open>swept\<close> keeps in every feed the entries whose instant lies strictly after
  the cutoff \<open>c\<close>.
\<close>

definition naive_date :: "env \<Rightarrow> json \<Rightarrow> bool" where
  "naive_date w v =
     (case v of
        JStr s \<Rightarrow> (case try_formats (strptime w s) formats of Some d \<Rightarrow> is_naive d | None \<Rightarrow> True)
      | _ \<Rightarrow> True)"

definition normalized :: "env \<Rightarrow> nat list \<Rightarrow> FeedEntry \<Rightarrow> datetime" where
  "normalized w p e =
     (case parse_date w p (FeedEntry.pub_date e) of Inr d \<Rightarrow> d | Inl x \<Rightarrow> Naive (now w p))"

fun recent_entries :: "env \<Rightarrow> int \<Rightarrow> nat \<Rightarrow> nat \<Rightarrow> FeedEntry list \<Rightarrow> FeedEntry list" where
  "recent_entries w c i j [] = []"
| "recent_entries w c i j (e # es) =
     (if stamp (normalized w [Suc i, j] e) > c
      then e # recent_entries w c i (Suc j) es else recent_entries w c i (Suc j) es)"

fun swept :: "env \<Rightarrow> int \<Rightarrow> nat \<Rightarrow> store \<Rightarrow> store" where
  "swept w c i [] = []"
| "swept w c i (kf # kfs) =
     (fst kf, (snd kf)\<lparr>RssFeed.entries := recent_entries w c i 0 (RssFeed.entries (snd kf))\<rparr>)
       # swept w c (Suc i) kfs"

text \<open>
  A feed record of the storage file that lacks a required key, or that holds an entry
  lacking one.
\<close>

definition lacks_key :: "string list \<Rightarrow> json \<Rightarrow> bool" where
  "lacks_key ks data =
     (case data of JObj kvs \<Rightarrow> list_ex (\<lambda>k. map_of kvs k = None) ks | _ \<Rightarrow> False)"

definition bad_record :: "json \<Rightarrow> bool" where
  "bad_record data =
     (lacks_key [''title'', ''link'', ''description''] data
      \<or> (case data of
            JObj kvs \<Rightarrow>
              (case map_of kvs ''entries'' of
                 Some (JList xs) \<Rightarrow>
                   list_ex (lacks_key [''title'', ''link'', ''description'', ''pubDate'']) xs
               | _ \<Rightarrow> False)
          | _ \<Rightarrow> False))"

section \<open>Basic facts\<close>

lemma bind_exn_Inr_iff:
  "bind_exn m f = Inr y \<longleftrightarrow> (\<exists>x. m = Inr x \<and> f x = Inr y)"
  by (cases m) (simp_all add: bind_exn_def)

lemma bind_exn_Inr [simp]: "bind_exn (Inr x) f = f x"
  by (simp add: bind_exn_def)

lemma bind_exn_Inl [simp]: "bind_exn (Inl e) f = Inl e"
  by (simp add: bind_exn_def)

lemma isl_bind_exn: "isl (bind_exn m f) \<longleftrightarrow> isl m \<or> (\<exists>x. m = Inr x \<and> isl (f x))"
  by (cases m) simp_all

lemma py_getitem_obj:
  "py_getitem (JObj kvs) k = (case map_of kvs k of Some v \<Rightarrow> Inr v | None \<Rightarrow> Inl KeyError)"
  by (simp add: py_getitem_def)

lemma py_get_obj:
  "py_get (JObj kvs) k d = Inr (case map_of kvs k of Some v \<Rightarrow> v | None \<Rightarrow> d)"
  by (simp add: py_get_def)

lemma py_or_truthy: "truthy a \<Longrightarrow> py_or a b = a"
  by (simp add: py_or_def)


lemma py_slice_to_take: "\<exists>k. py_slice_to xs n = take k xs"
  by (auto simp: py_slice_to_def)

lemma keep_if_subset: "keep_if c j xs = Inr ys \<Longrightarrow> set ys \<subseteq> set xs"
proof (induction xs arbitrary: j ys)
  case Nil
  then show ?case by simp
next
  case (Cons x xs)
  from Cons.prems obtain b ys' where ys': "keep_if c (Suc j) xs = Inr ys'"
    and ys: "ys = (if b then x # ys' else ys')"
    by (auto simp: bind_exn_Inr_iff)
  from ys' have "set ys' \<subseteq> set xs"
    by (rule Cons.IH)
  with ys show ?case
    by auto
qed

lemma entries_add_entry:
  "0 \<le> M \<Longrightarrow>
   RssFeed.entries (add_entry M feed entry) = take (nat M) (entry # RssFeed.entries feed)"
  by (simp add: add_entry_def py_slice_to_def Let_def)

text \<open>Definitions to unfold when an example is evaluated.\<close>

lemmas ex_defs = ex_env_def ex_strptime_def ex_fromisoformat_def ex_int_def ex_lower_char_def
  ex_str_of_def ex_entry_def ex_feed_def ex_id_def rfc822_def january_def june_def

lemmas filter_defs = filter_feed_def filter_title_def filter_description_def
  filter_from_date_def filter_to_date_def filter_limit_def include_empty_def RssFeed_init_def
  py_or_def py_lower_def parse_date_def parse_date_try_def formats_def dt_ge_def dt_le_def
  dt_gt_def dt_cmp_def py_slice_to_def

text \<open>A store of the examples: one feed, created through the endpoint.\<close>

lemma ex_uuid_ok: "uuid_ok ex_env"
  by (simp add: uuid_ok_def ex_env_def ex_id_def)

lemma ex_create:
  "fst (create_feed ex_env 100 [] (ex_feed_data ''Feed A'' [ex_entry_data ''First'' january ''g1'']))
   = [(ex_id, ex_feed ex_id ''Feed A'' [ex_entry ''First'' january ''g1''])]"
  by (simp add: create_feed_def create_feed_try_def ex_feed_data_def ex_entry_data_def py_in_def
      py_getitem_def py_get_def py_iter_def RssFeed_init_def FeedEntry_from_dict_def FeedEntry_init_def
      add_entry_def add_feed_def Let_def py_or_def ex_env_def ex_feed_def ex_entry_def ex_id_def)

section \<open>Appending keeps the newest entries\<close>

lemma take_Cons_take: "take n (x # take n ys) = take n (x # ys)"
  by (cases n) (simp_all add: min_def)

lemma entries_foldl_add_entry:
  "0 \<le> M \<Longrightarrow> es \<noteq> [] \<Longrightarrow>
   RssFeed.entries (foldl (add_entry M) feed es)
     = take (nat M) (rev es @ RssFeed.entries feed)"
proof (induction es rule: rev_induct)
  case Nil
  then show ?case by simp
next
  case (snoc e es)
  show ?case
  proof (cases "es = []")
    case True
    with snoc.prems show ?thesis by (simp add: entries_add_entry)
  next
    case False
    with snoc have ih: "RssFeed.entries (foldl (add_entry M) feed es)
        = take (nat M) (rev es @ RssFeed.entries feed)"
      by simp
    have "RssFeed.entries (foldl (add_entry M) feed (es @ [e]))
        = take (nat M) (e # RssFeed.entries (foldl (add_entry M) feed es))"
      by (simp add: entries_add_entry [OF snoc.prems(1)])
    also have "\<dots> = take (nat M) (e # take (nat M) (rev es @ RssFeed.entries feed))"
      by (simp only: ih)
    also have "\<dots> = take (nat M) (e # rev es @ RssFeed.entries feed)"
      by (rule take_Cons_take)
    finally show ?thesis
      by simp
  qed
qed

text \<open>
  Both ways of inserting run \<open>add_entry\<close>: the loop of \<^verbatim>\<open>create_feed\<close> over the
  initial entries applies it to the new feed once for each accepted entry, and
  \<^verbatim>\<open>add_entry_to_feed\<close> applies it to the stored feed.
\<close>

lemma add_initial_entries_foldl:
  "add_initial_entries w M j xs feed = Inr feed' \<Longrightarrow> \<exists>es. feed' = foldl (add_entry M) feed es"
proof (induction xs arbitrary: j feed)
  case Nil
  then have "feed' = foldl (add_entry M) feed []" by simp
  then show ?case by blast
next
  case (Cons x xs)
  from Cons.prems obtain ok where
    step: "(if ok
       then bind_exn (FeedEntry_from_dict (uuid4 w [Suc j]) x) (\<lambda>entry.
              add_initial_entries w M (Suc j) xs (add_entry M feed entry))
       else add_initial_entries w M (Suc j) xs feed) = Inr feed'"
    by (auto simp: bind_exn_Inr_iff)
  show ?case
  proof (cases ok)
    case True
    with step obtain entry where
      r: "add_initial_entries w M (Suc j) xs (add_entry M feed entry) = Inr feed'"
      by (auto simp: bind_exn_Inr_iff)
    from Cons.IH [OF r] obtain es where "feed' = foldl (add_entry M) (add_entry M feed entry) es"
      by blast
    then have "feed' = foldl (add_entry M) feed (entry # es)"
      by simp
    then show ?thesis by blast
  next
    case False
    with step show ?thesis
      by (auto intro: Cons.IH)
  qed
qed

lemma add_entry_to_feed_found:
  "get_feed feeds fid = Some feed \<Longrightarrow>
   get_feed (fst (add_entry_to_feed M feeds fid entry)) fid = Some (add_entry M feed entry)"
  by (simp add: add_entry_to_feed_def get_feed_def Let_def update_conv')

text \<open>
  Claim C1. Take any feed, append any sequence of entries \<open>es\<close> and then one more entry
  \<open>e\<close>, with the bound \<open>M\<close> (the constant \<^verbatim>\<open>MAX_ENTRIES_PER_FEED\<close>). For a bound of at
  least zero the feed then holds at most \<open>M\<close> entries, and they are the first \<open>M\<close>
  elements of the newest-first sequence "\<open>e\<close>, then \<open>es\<close> from last to first, then the
  entries the feed started with": what is dropped is dropped from the tail. For a bound of
  at least one, \<open>e\<close> is at position 0.
\<close>

theorem add_entry_keeps_newest:
  "(0 \<le> M \<longrightarrow>
      int (length (RssFeed.entries (add_entry M (foldl (add_entry M) feed es) e))) \<le> M
      \<and> RssFeed.entries (add_entry M (foldl (add_entry M) feed es) e)
           = take (nat M) (e # rev es @ RssFeed.entries feed))
   \<and> (1 \<le> M \<longrightarrow> RssFeed.entries (add_entry M (foldl (add_entry M) feed es) e) ! 0 = e)"
proof (intro conjI impI)
  assume M: "0 \<le> M"
  show eq: "RssFeed.entries (add_entry M (foldl (add_entry M) feed es) e)
      = take (nat M) (e # rev es @ RssFeed.entries feed)"
    using entries_foldl_add_entry [OF M, of "es @ [e]" feed] by simp
  from M have "int (length (take (nat M) (e # rev es @ RssFeed.entries feed))) \<le> M"
    by simp
  then show "int (length (RssFeed.entries (add_entry M (foldl (add_entry M) feed es) e))) \<le> M"
    by (simp only: eq)
next
  assume M: "1 \<le> M"
  then have eq: "RssFeed.entries (add_entry M (foldl (add_entry M) feed es) e)
      = take (nat M) (e # rev es @ RssFeed.entries feed)"
    using entries_foldl_add_entry [of M "es @ [e]" feed] by simp
  from M obtain k where k: "nat M = Suc k"
    by (cases "nat M") auto
  have "take (nat M) (e # rev es @ RssFeed.entries feed) ! 0 = e"
    by (simp add: k)
  then show "RssFeed.entries (add_entry M (foldl (add_entry M) feed es) e) ! 0 = e"
    by (simp only: eq)
qed

theorem add_entry_keeps_newest_witness:
  "RssFeed.entries (add_entry 2 (foldl (add_entry 2) (ex_feed ''fa'' ''Feed A'' [])
         [ex_entry ''one'' january ''g1'', ex_entry ''two'' june ''g2''])
         (ex_entry ''three'' ''Wed, 05 Jun 2024 12:00:00 GMT'' ''g3''))
     = [ex_entry ''three'' ''Wed, 05 Jun 2024 12:00:00 GMT'' ''g3'', ex_entry ''two'' june ''g2'']
   \<and> RssFeed.entries (add_entry 2 (foldl (add_entry 2) (ex_feed ''fa'' ''Feed A'' [])
         [ex_entry ''one'' january ''g1'', ex_entry ''two'' june ''g2''])
         (ex_entry ''three'' ''Wed, 05 Jun 2024 12:00:00 GMT'' ''g3'')) ! 0
     = ex_entry ''three'' ''Wed, 05 Jun 2024 12:00:00 GMT'' ''g3''"
  using add_entry_keeps_newest [of 2 "ex_feed ''fa'' ''Feed A'' []"
         "[ex_entry ''one'' january ''g1'', ex_entry ''two'' june ''g2'']"
         "ex_entry ''three'' ''Wed, 05 Jun 2024 12:00:00 GMT'' ''g3''"]
  by (simp add: ex_feed_def)

section \<open>The normalizer never fails\<close>

lemma parse_date_try_str:
  "parse_date_try w p (JStr s) =
     Inr (case try_formats (strptime w s) formats of Some d \<Rightarrow> d | None \<Rightarrow> Naive (now w p))"
  by (simp add: parse_date_try_def split: option.splits)

lemma try_formats_first:
  "(\<forall>f\<in>set pre. parse f = None) \<Longrightarrow> parse fmt = Some d \<Longrightarrow>
   try_formats parse (pre @ fmt # post) = Some d"
  by (induction pre) simp_all

lemma try_formats_none:
  "(\<forall>f\<in>set fmts. parse f = None) \<Longrightarrow> try_formats parse fmts = None"
  by (induction fmts) simp_all

text \<open>
  Claim C3. For every value the normalizer returns an instant and raises nothing. For a
  string it tries the formats of the fixed list in order and returns the instant of the
  first format that parses; when no format parses it returns the reading of the clock at
  the call.
\<close>

theorem parse_date_never_fails:
  "(\<exists>d. parse_date w p v = Inr d)
   \<and> (\<forall>pre fmt post d.
        formats = pre @ fmt # post \<and> (\<forall>f\<in>set pre. strptime w s f = None)
          \<and> strptime w s fmt = Some d
        \<longrightarrow> parse_date w p (JStr s) = Inr d)
   \<and> ((\<forall>f\<in>set formats. strptime w s f = None)
        \<longrightarrow> parse_date w p (JStr s) = Inr (Naive (now w p)))"
proof (intro conjI allI impI)
  show "\<exists>d. parse_date w p v = Inr d"
    by (simp add: parse_date_def split: sum.splits)
next
  fix pre fmt post d
  assume h: "formats = pre @ fmt # post \<and> (\<forall>f\<in>set pre. strptime w s f = None)
          \<and> strptime w s fmt = Some d"
  then have "try_formats (strptime w s) formats = Some d"
    using try_formats_first [of pre "strptime w s" fmt d post] by simp
  then show "parse_date w p (JStr s) = Inr d"
    by (simp add: parse_date_def parse_date_try_str)
next
  assume "\<forall>f\<in>set formats. strptime w s f = None"
  then have "try_formats (strptime w s) formats = None"
    by (rule try_formats_none)
  then show "parse_date w p (JStr s) = Inr (Naive (now w p))"
    by (simp add: parse_date_def parse_date_try_str)
qed

lemma ex_formats_split:
  "formats = [''%a, %d %b %Y %H:%M:%S %Z'', ''%a, %d %b %Y %H:%M:%S GMT'',
              ''%a, %d %b %Y %H:%M:%S +0000''] @ ''%Y-%m-%dT%H:%M:%S%z'' # [''%Y-%m-%dT%H:%M:%SZ'']"
  by (simp add: formats_def)

theorem parse_date_never_fails_witness:
  "parse_date ex_env [] (JStr ''not a real date'') = Inr (Naive 63854049600000000)
   \<and> parse_date ex_env [] (JStr ''2020-01-01T00:00:00+0000'') = Inr (Aware 63713433600000000)"
proof
  have "\<forall>f\<in>set formats. strptime ex_env ''not a real date'' f = None"
    by (simp add: formats_def ex_env_def ex_strptime_def rfc822_def)
  with parse_date_never_fails [of ex_env "[]" JNull "''not a real date''"]
  show "parse_date ex_env [] (JStr ''not a real date'') = Inr (Naive 63854049600000000)"
    by (simp add: ex_env_def)
next
  have "(\<forall>f\<in>set [''%a, %d %b %Y %H:%M:%S %Z'', ''%a, %d %b %Y %H:%M:%S GMT'',
              ''%a, %d %b %Y %H:%M:%S +0000'']. strptime ex_env ''2020-01-01T00:00:00+0000'' f = None)
     \<and> strptime ex_env ''2020-01-01T00:00:00+0000'' ''%Y-%m-%dT%H:%M:%S%z'' = Some (Aware 63713433600000000)"
    by (simp add: ex_env_def ex_strptime_def rfc822_def)
  with parse_date_never_fails [of ex_env "[]" JNull "''2020-01-01T00:00:00+0000''"] ex_formats_split
  show "parse_date ex_env [] (JStr ''2020-01-01T00:00:00+0000'') = Inr (Aware 63713433600000000)"
    by blast
qed

section \<open>Saving and loading\<close>

lemma entry_roundtrip:
  "truthy (FeedEntry.guid e) \<Longrightarrow> FeedEntry_from_dict fresh (FeedEntry_to_dict e) = Inr e"
  by (simp add: FeedEntry_from_dict_def FeedEntry_to_dict_def py_getitem_obj py_get_obj
        FeedEntry_init_def py_or_truthy)

lemma entries_roundtrip:
  "list_all (\<lambda>e. truthy (FeedEntry.guid e)) es \<Longrightarrow>
   entries_from_dicts fresh j (map FeedEntry_to_dict es) = Inr es"
  by (induction es arbitrary: j) (simp_all add: entry_roundtrip)

lemma feed_roundtrip:
  "has_ids f \<Longrightarrow> RssFeed_from_dict fresh (RssFeed_to_dict f) = Inr f"
  by (simp add: has_ids_def RssFeed_from_dict_def RssFeed_to_dict_def py_getitem_obj py_get_obj
        py_iter_def entries_roundtrip RssFeed_init_def py_or_truthy)



subsection \<open>Identifiers are never empty\<close>




















subsection \<open>The round trip\<close>



section \<open>Loading a file with a malformed record\<close>

lemma lacks_key_getitem:
  "map_of kvs k = None \<Longrightarrow> isl (py_getitem (JObj kvs) k)"
  by (simp add: py_getitem_obj)

lemma lacks_key_entry:
  assumes "lacks_key [''title'', ''link'', ''description'', ''pubDate''] x"
  shows "isl (FeedEntry_from_dict fresh x)"
proof -
  from assms obtain kvs where x: "x = JObj kvs"
    by (cases x) (simp_all add: lacks_key_def)
  with assms have "map_of kvs ''title'' = None \<or> map_of kvs ''link'' = None
      \<or> map_of kvs ''description'' = None \<or> map_of kvs ''pubDate'' = None"
    by (simp add: lacks_key_def)
  then have "isl (py_getitem x ''title'') \<or> isl (py_getitem x ''link'')
      \<or> isl (py_getitem x ''description'') \<or> isl (py_getitem x ''pubDate'')"
    unfolding x by (auto dest: lacks_key_getitem)
  then show ?thesis
    unfolding FeedEntry_from_dict_def isl_bind_exn
    by (metis sum.collapse(2))
qed

lemma lacks_key_entries:
  "list_ex (lacks_key [''title'', ''link'', ''description'', ''pubDate'']) xs \<Longrightarrow>
   isl (entries_from_dicts fresh j xs)"
proof (induction xs arbitrary: j)
  case Nil
  then show ?case by simp
next
  case (Cons x xs)
  show ?case
  proof (cases "FeedEntry_from_dict (fresh j) x")
    case (Inl e)
    then show ?thesis by simp
  next
    case (Inr e)
    with lacks_key_entry [of x "fresh j"]
    have "\<not> lacks_key [''title'', ''link'', ''description'', ''pubDate''] x"
      by auto
    with Cons.prems have "list_ex (lacks_key [''title'', ''link'', ''description'', ''pubDate'']) xs"
      by simp
    then have "isl (entries_from_dicts fresh (Suc j) xs)"
      by (rule Cons.IH)
    with Inr show ?thesis
      by (simp add: isl_bind_exn)
  qed
qed

lemma bad_record_from_dict:
  assumes "bad_record data"
  shows "isl (RssFeed_from_dict fresh data)"
proof -
  from assms obtain kvs where d: "data = JObj kvs"
    by (cases data) (simp_all add: bad_record_def lacks_key_def)
  show ?thesis
  proof (cases "lacks_key [''title'', ''link'', ''description''] data")
    case True
    with d have "map_of kvs ''title'' = None \<or> map_of kvs ''link'' = None
        \<or> map_of kvs ''description'' = None"
      by (simp add: lacks_key_def)
    then have "isl (py_getitem data ''title'') \<or> isl (py_getitem data ''link'')
        \<or> isl (py_getitem data ''description'')"
      unfolding d by (auto dest: lacks_key_getitem)
    then show ?thesis
      unfolding RssFeed_from_dict_def isl_bind_exn
      by (metis sum.collapse(2))
  next
    case False
    with assms d obtain xs where ents: "map_of kvs ''entries'' = Some (JList xs)"
      and bad: "list_ex (lacks_key [''title'', ''link'', ''description'', ''pubDate'']) xs"
      by (auto simp: bad_record_def split: option.splits json.splits)
    from bad have "isl (entries_from_dicts (\<lambda>j. fresh (Suc j)) 0 xs)"
      by (rule lacks_key_entries)
    with ents show ?thesis
      unfolding RssFeed_from_dict_def isl_bind_exn d
      by (cases "py_getitem (JObj kvs) ''title''"; cases "py_getitem (JObj kvs) ''link''";
          cases "py_getitem (JObj kvs) ''description''")
         (simp_all add: py_get_obj py_iter_def)
  qed
qed

lemma bad_record_items:
  "list_ex (\<lambda>kv. bad_record (snd kv)) kvs \<Longrightarrow> isl (feeds_from_items w i kvs)"
proof (induction kvs arbitrary: i)
  case Nil
  then show ?case by simp
next
  case (Cons kv kvs)
  show ?case
  proof (cases "RssFeed_from_dict (\<lambda>j. uuid4 w [i, j]) (snd kv)")
    case (Inl e)
    then show ?thesis by simp
  next
    case (Inr f)
    with bad_record_from_dict [of "snd kv" "\<lambda>j. uuid4 w [i, j]"]
    have "\<not> bad_record (snd kv)"
      by auto
    with Cons.prems have "list_ex (\<lambda>kv. bad_record (snd kv)) kvs"
      by simp
    then have "isl (feeds_from_items w (Suc i) kvs)"
      by (rule Cons.IH)
    with Inr show ?thesis
      by (simp add: isl_bind_exn)
  qed
qed

text \<open>
  Claim C10. When one feed record of the storage document lacks \<^verbatim>\<open>title\<close>,
  \<^verbatim>\<open>link\<close> or \<^verbatim>\<open>description\<close>, or holds an entry that lacks \<^verbatim>\<open>title\<close>, \<^verbatim>\<open>link\<close>,
  \<^verbatim>\<open>description\<close> or \<^verbatim>\<open>pubDate\<close>, loading leaves the store empty: the well-formed
  records of the same file are not loaded either.
\<close>

theorem load_degrades_to_empty:
  assumes "list_ex (\<lambda>kv. bad_record (snd kv)) kvs"
  shows "load w (Document (JObj kvs)) = []"
proof -
  from assms have "isl (feeds_from_items w 0 kvs)"
    by (rule bad_record_items)
  then show ?thesis
    by (cases "feeds_from_items w 0 kvs") (simp_all add: load_def load_try_def)
qed

theorem load_degrades_to_empty_witness:
  "load ex_env (Document (JObj
      [(''f1'', RssFeed_to_dict (ex_feed ''f1'' ''Feed A''
                  [ex_entry ''Original Title'' ''Mon, 01 Jan 2024 00:00:00 GMT'' ''g1''])),
       (''f2'', JObj [(''feedId'', JStr ''f2''), (''title'', JStr ''Feed B''),
                      (''link'', JStr ''http://example.org'')])])) = []
   \<and> load ex_env (Document (JObj
      [(''f1'', RssFeed_to_dict (ex_feed ''f1'' ''Feed A''
                  [ex_entry ''Original Title'' ''Mon, 01 Jan 2024 00:00:00 GMT'' ''g1'']))]))
     = [(''f1'', ex_feed ''f1'' ''Feed A''
                  [ex_entry ''Original Title'' ''Mon, 01 Jan 2024 00:00:00 GMT'' ''g1''])]"
proof
  have "list_ex (\<lambda>kv. bad_record (snd kv))
      [(''f1'', RssFeed_to_dict (ex_feed ''f1'' ''Feed A''
                  [ex_entry ''Original Title'' ''Mon, 01 Jan 2024 00:00:00 GMT'' ''g1''])),
       (''f2'', JObj [(''feedId'', JStr ''f2''), (''title'', JStr ''Feed B''),
                      (''link'', JStr ''http://example.org'')])]"
    by (simp add: bad_record_def lacks_key_def)
  then show "load ex_env (Document (JObj
      [(''f1'', RssFeed_to_dict (ex_feed ''f1'' ''Feed A''
                  [ex_entry ''Original Title'' ''Mon, 01 Jan 2024 00:00:00 GMT'' ''g1''])),
       (''f2'', JObj [(''feedId'', JStr ''f2''), (''title'', JStr ''Feed B''),
                      (''link'', JStr ''http://example.org'')])])) = []"
    by (rule load_degrades_to_empty)
next
  have "has_ids (ex_feed ''f1'' ''Feed A''
                  [ex_entry ''Original Title'' ''Mon, 01 Jan 2024 00:00:00 GMT'' ''g1''])"
    by (simp add: has_ids_def ex_feed_def ex_entry_def)
  then show "load ex_env (Document (JObj
      [(''f1'', RssFeed_to_dict (ex_feed ''f1'' ''Feed A''
                  [ex_entry ''Original Title'' ''Mon, 01 Jan 2024 00:00:00 GMT'' ''g1'']))]))
     = [(''f1'', ex_feed ''f1'' ''Feed A''
                  [ex_entry ''Original Title'' ''Mon, 01 Jan 2024 00:00:00 GMT'' ''g1''])]"
    by (simp add: load_def load_try_def feed_roundtrip)
qed

section \<open>Which feeds a query returns\<close>





text \<open>With \<^verbatim>\<open>include_empty=True\<close> the same query also returns the feed left empty.\<close>

lemma filter_feeds_include_empty_example:
  "filter_feeds ex_env [(''title'', ''ALPHA''), (''include_empty'', ''True'')]
     [(''fa'', ex_feed ''fa'' ''Feed A'' [ex_entry ''Alpha news'' january ''g1'']),
      (''fb'', ex_feed ''fb'' ''Feed B'' [ex_entry ''Beta'' june ''g2''])]
   = Inr [ex_feed ''fa'' ''Feed A'' [ex_entry ''Alpha news'' january ''g1''],
          ex_feed ''fb'' ''Feed B'' []]"
  by (simp add: filter_feeds_def filter_defs ex_defs)

section \<open>The aggregate of all feeds\<close>


lemma length_entries_add_entry:
  "0 \<le> M \<Longrightarrow> int (length (RssFeed.entries (add_entry M c e))) \<le> M"
  by (simp add: entries_add_entry)





lemma length_copies: "length (copies w i feed j es) = length es"
  by (induction es arbitrary: j) simp_all

lemma length_all_copies:
  "length (all_copies w i feeds) = sum_list (map (\<lambda>f. length (RssFeed.entries f)) feeds)"
  by (induction feeds arbitrary: i) (simp_all add: length_copies)




section \<open>Identifiers of inserted entries\<close>

lemma distinct_guids_add_entry:
  assumes "distinct (map FeedEntry.guid (RssFeed.entries feed))"
    and "FeedEntry.guid entry \<notin> set (map FeedEntry.guid (RssFeed.entries feed))"
  shows "distinct (map FeedEntry.guid (RssFeed.entries (add_entry M feed entry)))"
proof -
  obtain k where k: "py_slice_to (entry # RssFeed.entries feed) M = take k (entry # RssFeed.entries feed)"
    using py_slice_to_take by blast
  from assms have d: "distinct (map FeedEntry.guid (entry # RssFeed.entries feed))"
    by simp
  then have "distinct (map FeedEntry.guid (take k (entry # RssFeed.entries feed)))"
    by (simp only: take_map [symmetric] distinct_take)
  with d show ?thesis
    by (simp add: add_entry_def Let_def k del: take_Suc_Cons)
qed

text \<open>
  Claim C8, as amended. An entry carries the guid it was given when that is truthy and a
  generated identifier otherwise. The store does not compare it with the guids of the
  feed: when the guids of the feed are pairwise distinct and the new one differs from
  them, they are pairwise distinct after the insertion.
\<close>

theorem inserted_guid_not_checked:
  "FeedEntry.guid (FeedEntry_init fresh t l d p g i) = (if truthy g then g else JStr fresh)
   \<and> (get_feed feeds fid = Some feed
        \<and> distinct (map FeedEntry.guid (RssFeed.entries feed))
        \<and> FeedEntry.guid entry \<notin> set (map FeedEntry.guid (RssFeed.entries feed))
      \<longrightarrow> (\<exists>feed'. get_feed (fst (add_entry_to_feed M feeds fid entry)) fid = Some feed'
                  \<and> distinct (map FeedEntry.guid (RssFeed.entries feed'))))"
proof (intro conjI impI)
  show "FeedEntry.guid (FeedEntry_init fresh t l d p g i) = (if truthy g then g else JStr fresh)"
    by (simp add: FeedEntry_init_def py_or_def)
next
  assume h: "get_feed feeds fid = Some feed
        \<and> distinct (map FeedEntry.guid (RssFeed.entries feed))
        \<and> FeedEntry.guid entry \<notin> set (map FeedEntry.guid (RssFeed.entries feed))"
  then have "get_feed (fst (add_entry_to_feed M feeds fid entry)) fid
      = Some (add_entry M feed entry)"
    by (simp add: add_entry_to_feed_def get_feed_def Let_def update_conv')
  moreover from h have "distinct (map FeedEntry.guid (RssFeed.entries (add_entry M feed entry)))"
    by (intro distinct_guids_add_entry) simp_all
  ultimately show "\<exists>feed'. get_feed (fst (add_entry_to_feed M feeds fid entry)) fid = Some feed'
                  \<and> distinct (map FeedEntry.guid (RssFeed.entries feed'))"
    by blast
qed

theorem inserted_guid_not_checked_witness:
  "FeedEntry.guid (FeedEntry_init ex_id (JStr ''t'') (JStr ''l'') (JStr ''d'') (JStr january) JNull JNull)
     = JStr ex_id
   \<and> (\<exists>feed'. get_feed (fst (add_entry_to_feed 100
                 [(ex_id, ex_feed ex_id ''Feed A'' [ex_entry ''First'' january ''g1''])]
                 ex_id (ex_entry ''Second'' june ''g2''))) ex_id = Some feed'
          \<and> distinct (map FeedEntry.guid (RssFeed.entries feed')))"
proof -
  have "get_feed [(ex_id, ex_feed ex_id ''Feed A'' [ex_entry ''First'' january ''g1''])] ex_id
          = Some (ex_feed ex_id ''Feed A'' [ex_entry ''First'' january ''g1''])
        \<and> distinct (map FeedEntry.guid (RssFeed.entries (ex_feed ex_id ''Feed A'' [ex_entry ''First'' january ''g1''])))
        \<and> FeedEntry.guid (ex_entry ''Second'' june ''g2'')
            \<notin> set (map FeedEntry.guid (RssFeed.entries (ex_feed ex_id ''Feed A'' [ex_entry ''First'' january ''g1''])))"
    by (simp add: get_feed_def ex_feed_def ex_entry_def)
  with inserted_guid_not_checked [of ex_id "JStr ''t''" "JStr ''l''" "JStr ''d''" "JStr january"
      JNull JNull "[(ex_id, ex_feed ex_id ''Feed A'' [ex_entry ''First'' january ''g1''])]" ex_id
      "ex_feed ex_id ''Feed A'' [ex_entry ''First'' january ''g1'']"
      "ex_entry ''Second'' june ''g2''" 100]
  show ?thesis
    by simp
qed

text \<open>
  Claim C8 as stated fails: into a feed of a reachable store that holds an entry with the
  guid \<^verbatim>\<open>g1\<close>, the endpoint inserts a second entry with the guid \<^verbatim>\<open>g1\<close> and
  answers 200.
\<close>

theorem guid_not_unique_counterexample:
  "reachable 100 30 [(ex_id, ex_feed ex_id ''Feed A'' [ex_entry ''First'' january ''g1''])]
   \<and> add_feed_entry ex_env 100 [(ex_id, ex_feed ex_id ''Feed A'' [ex_entry ''First'' january ''g1''])]
        ex_id (ex_entry_data ''Second'' june ''g1'')
     = ([(ex_id, ex_feed ex_id ''Feed A''
            [ex_entry ''Second'' june ''g1'', ex_entry ''First'' january ''g1''])],
        [save [(ex_id, ex_feed ex_id ''Feed A''
            [ex_entry ''Second'' june ''g1'', ex_entry ''First'' january ''g1''])]],
        Json200 (JObj [(''message'', JStr ''Entry added successfully''),
                       (''entryId'', JStr ''g1'')]))"
proof
  have "reachable 100 30 (fst (create_feed ex_env 100 (load ex_env NoFile)
          (ex_feed_data ''Feed A'' [ex_entry_data ''First'' january ''g1''])))"
    by (intro reachable.create reachable.start ex_uuid_ok)
  then show "reachable 100 30 [(ex_id, ex_feed ex_id ''Feed A'' [ex_entry ''First'' january ''g1''])]"
    by (simp add: load_def ex_create)
next
  show "add_feed_entry ex_env 100 [(ex_id, ex_feed ex_id ''Feed A'' [ex_entry ''First'' january ''g1''])]
        ex_id (ex_entry_data ''Second'' june ''g1'')
     = ([(ex_id, ex_feed ex_id ''Feed A''
            [ex_entry ''Second'' june ''g1'', ex_entry ''First'' january ''g1''])],
        [save [(ex_id, ex_feed ex_id ''Feed A''
            [ex_entry ''Second'' june ''g1'', ex_entry ''First'' january ''g1''])]],
        Json200 (JObj [(''message'', JStr ''Entry added successfully''),
                       (''entryId'', JStr ''g1'')]))"
    by (simp add: add_feed_entry_def add_feed_entry_try_def get_feed_def ex_entry_data_def py_in_def
      py_getitem_def py_get_def FeedEntry_from_dict_def FeedEntry_init_def add_entry_to_feed_def
      add_entry_def Let_def py_or_def ex_feed_def ex_entry_def)
qed

section \<open>Dates with a time zone\<close>

text \<open>
  The normalizer reads an ISO 8601 date with an offset (\<^verbatim>\<open>+0000\<close>, \<^verbatim>\<open>Z\<close>) into an
  aware value and every other date, the fallback included, into a naive one. The clock
  and \<^verbatim>\<open>fromisoformat\<close> of a date without offset give naive values. Comparing the two
  kinds raises \<^verbatim>\<open>TypeError\<close>, which neither the sweep nor the filter expects.
\<close>

subsection \<open>The sweep\<close>

text \<open>
  On a store whose dates all carry no time zone, an iteration removes from every feed
  exactly the entries not strictly after the cutoff, writes the store once if and only if
  a feed changed, and sleeps for a day.
\<close>

lemma parse_date_normalized: "parse_date w p (FeedEntry.pub_date e) = Inr (normalized w p e)"
  by (simp add: normalized_def parse_date_def split: sum.splits)

lemma naive_date_normalized:
  "naive_date w (FeedEntry.pub_date e) \<Longrightarrow> is_naive (normalized w p e)"
  by (auto simp: naive_date_def normalized_def parse_date_def parse_date_try_def
      split: json.splits option.splits)

lemma dt_gt_naive: "is_naive d \<Longrightarrow> dt_gt d (Naive c) = Inr (stamp d > c)"
  by (cases d) (simp_all add: dt_gt_def dt_cmp_def)

lemma keep_if_recent:
  "\<forall>e\<in>set es. naive_date w (FeedEntry.pub_date e) \<Longrightarrow>
   keep_if (\<lambda>j e. bind_exn (parse_date w [Suc i, j] (FeedEntry.pub_date e))
                            (\<lambda>d. dt_gt d (Naive c))) j es
     = Inr (recent_entries w c i j es)"
  by (induction es arbitrary: j)
     (simp_all add: parse_date_normalized naive_date_normalized dt_gt_naive)

lemma length_recent_entries: "length (recent_entries w c i j es) \<le> length es"
  by (induction es arbitrary: j) (simp_all add: le_SucI)

lemma recent_entries_shorter:
  "length (recent_entries w c i j es) < length es \<longleftrightarrow> recent_entries w c i j es \<noteq> es"
proof (induction es arbitrary: j)
  case Nil
  then show ?case by simp
next
  case (Cons e es)
  have "length (recent_entries w c i (Suc j) es) \<le> length es"
    by (rule length_recent_entries)
  moreover have "recent_entries w c i (Suc j) es \<noteq> e # es"
    using length_recent_entries [of w c i "Suc j" es] by (auto dest: arg_cong [where f = length])
  ultimately show ?case
    using Cons.IH [of "Suc j"] by (auto simp: less_Suc_eq_le)
qed

lemma cleanup_loop_naive:
  "\<forall>kf\<in>set feeds. \<forall>e\<in>set (RssFeed.entries (snd kf)). naive_date w (FeedEntry.pub_date e) \<Longrightarrow>
   cleanup_loop w (Naive c) i feeds m
     = (swept w c i feeds, m \<or> swept w c i feeds \<noteq> feeds, None)"
proof (induction feeds arbitrary: i m)
  case Nil
  then show ?case by simp
next
  case (Cons kf kfs)
  have feed_eq: "(snd kf)\<lparr>RssFeed.entries := es\<rparr> = snd kf \<longleftrightarrow> es = RssFeed.entries (snd kf)" for es
    by (cases "snd kf") auto
  have pair_eq: "(fst kf, f) = kf \<longleftrightarrow> f = snd kf" for f
    by (cases kf) auto
  from Cons.prems have k: "keep_if (\<lambda>j e. bind_exn (parse_date w [Suc i, j] (FeedEntry.pub_date e))
                            (\<lambda>d. dt_gt d (Naive c))) 0 (RssFeed.entries (snd kf))
     = Inr (recent_entries w c i 0 (RssFeed.entries (snd kf)))"
    by (intro keep_if_recent) simp
  from Cons.prems have "\<forall>kf\<in>set kfs. \<forall>e\<in>set (RssFeed.entries (snd kf)). naive_date w (FeedEntry.pub_date e)"
    by simp
  note ih = Cons.IH [OF this]
  show ?case
    by (simp add: k ih recent_entries_shorter feed_eq pair_eq)
qed

lemma cutoff_date_naive: "cutoff_date t H = Inr d \<Longrightarrow> \<exists>c. d = Naive c"
  by (auto simp: cutoff_date_def Let_def split: if_splits)

lemma cleanup_naive:
  assumes "cutoff_date (now w [0]) H = Inr (Naive c)"
    and "\<forall>kf\<in>set feeds. \<forall>e\<in>set (RssFeed.entries (snd kf)). naive_date w (FeedEntry.pub_date e)"
  shows "cleanup_old_entries w H feeds
           = (swept w c 0 feeds,
              if swept w c 0 feeds \<noteq> feeds then [save (swept w c 0 feeds)] else [],
              86400)"
  using assms by (simp add: cleanup_old_entries_def cleanup_loop_naive)

text \<open>
  The example of the specification: with a window of 30 days the entry dated 40 days ago
  is removed, the entry dated 10 days ago is retained, and the store is written once.
\<close>

lemma cleanup_example:
  "cleanup_old_entries ex_env 30
     [(''fa'', ex_feed ''fa'' ''Feed A''
         [ex_entry ''ten days old'' ''Wed, 05 Jun 2024 12:00:00 GMT'' ''g1'',
          ex_entry ''forty days old'' ''Mon, 06 May 2024 12:00:00 GMT'' ''g0''])]
   = ([(''fa'', ex_feed ''fa'' ''Feed A''
         [ex_entry ''ten days old'' ''Wed, 05 Jun 2024 12:00:00 GMT'' ''g1''])],
      [save [(''fa'', ex_feed ''fa'' ''Feed A''
         [ex_entry ''ten days old'' ''Wed, 05 Jun 2024 12:00:00 GMT'' ''g1''])]],
      86400)"
  by (simp add: cleanup_old_entries_def cutoff_date_def max_datetime_def filter_defs ex_defs)

text \<open>
  Claim C2 fails on the code. The store holds Feed A with an entry dated 40 days ago and
  Feed B with an entry dated \<^verbatim>\<open>2020-01-01T00:00:00+0000\<close>, more than four years before
  the clock. One iteration with a window of 30 days empties Feed A in memory, raises at
  Feed B, whose old entry stays, writes nothing although a feed changed, and sleeps for
  an hour instead of a day.
\<close>

theorem cleanup_stops_at_aware_date:
  "cleanup_old_entries ex_env 30
     [(''fa'', ex_feed ''fa'' ''Feed A''
         [ex_entry ''forty days old'' ''Mon, 06 May 2024 12:00:00 GMT'' ''g0'']),
      (''fb'', ex_feed ''fb'' ''Feed B''
         [ex_entry ''four years old'' ''2020-01-01T00:00:00+0000'' ''g2''])]
   = ([(''fa'', ex_feed ''fa'' ''Feed A'' []),
       (''fb'', ex_feed ''fb'' ''Feed B''
         [ex_entry ''four years old'' ''2020-01-01T00:00:00+0000'' ''g2''])],
      [], 3600)"
  by (simp add: cleanup_old_entries_def cutoff_date_def max_datetime_def filter_defs ex_defs)

subsection \<open>The filter\<close>

text \<open>
  When the per-feed filter returns, the copy has the metadata of the feed and only
  entries of the feed, and with a \<^verbatim>\<open>title\<close> criterion every entry of the copy has the
  criterion in its title, letter case aside.
\<close>

lemma filter_feed_metadata:
  "filter_feed w i q feed = Inr c \<Longrightarrow> truthy (RssFeed.feed_id feed) \<Longrightarrow>
   c\<lparr>RssFeed.entries := RssFeed.entries feed\<rparr> = feed"
  by (auto simp: filter_feed_def Let_def bind_exn_Inr_iff RssFeed_init_def py_or_def)


lemma filter_feed_subset:
  "filter_feed w i q feed = Inr c \<Longrightarrow> set (RssFeed.entries c) \<subseteq> set (RssFeed.entries feed)"
proof -
  assume "filter_feed w i q feed = Inr c"
  then obtain es1 es2 es3 es4 where
    1: "filter_title w q (RssFeed.entries feed) = Inr es1"
    and 2: "filter_description w q es1 = Inr es2"
    and 3: "filter_from_date w i q es2 = Inr es3"
    and 4: "filter_to_date w i q es3 = Inr es4"
    and c: "RssFeed.entries c = filter_limit w q es4"
    by (auto simp: filter_feed_def Let_def bind_exn_Inr_iff)
  from 1 have "set es1 \<subseteq> set (RssFeed.entries feed)"
    by (auto simp: filter_title_def split: option.splits dest: keep_if_subset)
  moreover from 2 have "set es2 \<subseteq> set es1"
    by (auto simp: filter_description_def split: option.splits dest: keep_if_subset)
  moreover from 3 have "set es3 \<subseteq> set es2"
    by (auto simp: filter_from_date_def split: option.splits sum.splits if_splits
        dest: keep_if_subset)
  moreover from 4 have "set es4 \<subseteq> set es3"
    by (auto simp: filter_to_date_def split: option.splits sum.splits if_splits
        dest: keep_if_subset)
  moreover have "set (filter_limit w q es4) \<subseteq> set es4"
    by (auto simp: filter_limit_def py_slice_to_def split: option.splits dest: in_set_takeD)
  ultimately show ?thesis
    using c by auto
qed

lemma title_filter_matches:
  assumes "map_of q ''title'' = Some t" and "filter_feed w i q feed = Inr c"
  shows "\<forall>e\<in>set (RssFeed.entries c).
           \<exists>s. FeedEntry.title e = JStr s \<and> py_in_str (lower w t) (lower w s)"
proof -
  have keep: "keep_if (\<lambda>j e. bind_exn (py_lower w (FeedEntry.title e))
                                  (\<lambda>s. Inr (py_in_str (lower w t) s))) j es = Inr ys \<Longrightarrow>
      \<forall>e\<in>set ys. \<exists>s. FeedEntry.title e = JStr s \<and> py_in_str (lower w t) (lower w s)" for j es ys
  proof (induction es arbitrary: j ys)
    case Nil
    then show ?case by simp
  next
    case (Cons e es)
    from Cons.prems obtain s ys' where s: "py_lower w (FeedEntry.title e) = Inr s"
      and ys': "keep_if (\<lambda>j e. bind_exn (py_lower w (FeedEntry.title e))
                                  (\<lambda>s. Inr (py_in_str (lower w t) s))) (Suc j) es = Inr ys'"
      and ys: "ys = (if py_in_str (lower w t) s then e # ys' else ys')"
      by (auto simp: bind_exn_Inr_iff)
    from s obtain s0 where "FeedEntry.title e = JStr s0" "s = lower w s0"
      by (cases "FeedEntry.title e") (auto simp: py_lower_def)
    with Cons.IH [OF ys'] ys show ?case
      by auto
  qed
  from assms(2) obtain es1 where
    1: "filter_title w q (RssFeed.entries feed) = Inr es1"
    and sub: "set (RssFeed.entries c) \<subseteq> set es1"
  proof -
    from assms(2) obtain es1 es2 es3 es4 where
      1: "filter_title w q (RssFeed.entries feed) = Inr es1"
      and 2: "filter_description w q es1 = Inr es2"
      and 3: "filter_from_date w i q es2 = Inr es3"
      and 4: "filter_to_date w i q es3 = Inr es4"
      and c: "RssFeed.entries c = filter_limit w q es4"
      by (auto simp: filter_feed_def Let_def bind_exn_Inr_iff)
    from 2 have "set es2 \<subseteq> set es1"
      by (auto simp: filter_description_def split: option.splits dest: keep_if_subset)
    moreover from 3 have "set es3 \<subseteq> set es2"
      by (auto simp: filter_from_date_def split: option.splits sum.splits if_splits
          dest: keep_if_subset)
    moreover from 4 have "set es4 \<subseteq> set es3"
      by (auto simp: filter_to_date_def split: option.splits sum.splits if_splits
          dest: keep_if_subset)
    moreover have "set (filter_limit w q es4) \<subseteq> set es4"
      by (auto simp: filter_limit_def py_slice_to_def split: option.splits dest: in_set_takeD)
    ultimately have "set (RssFeed.entries c) \<subseteq> set es1"
      using c by auto
    with 1 that show ?thesis by blast
  qed
  from 1 assms(1) have "\<forall>e\<in>set es1. \<exists>s. FeedEntry.title e = JStr s \<and> py_in_str (lower w t) (lower w s)"
    by (auto simp: filter_title_def dest: keep [rule_format])
  with sub show ?thesis
    by blast
qed

text \<open>A lower bound without offset on dates without offset: the older entry is dropped.\<close>

lemma filter_from_date_example:
  "filter_feeds ex_env [(''from_date'', ''2024-03-01'')]
     [(''fa'', ex_feed ''fa'' ''Feed A'' [ex_entry ''Original Title'' january ''g1'']),
      (''fb'', ex_feed ''fb'' ''Feed B'' [ex_entry ''Original Title'' june ''g2''])]
   = Inr [ex_feed ''fb'' ''Feed B'' [ex_entry ''Original Title'' june ''g2'']]"
  by (simp add: filter_feeds_def filter_defs ex_defs)

text \<open>
  Claim C6 fails on the code. The feed holds an entry dated
  \<^verbatim>\<open>2020-01-01T00:00:00+0000\<close> and the query is \<^verbatim>\<open>from_date=2024-03-01\<close>. The entry
  lies before the bound, so the claim has the filter return the feed without it (no feed,
  as \<^verbatim>\<open>include_empty\<close> is not set); the filter raises \<^verbatim>\<open>TypeError\<close> instead.
\<close>

theorem filter_raises_on_aware_date:
  "filter_feeds ex_env [(''from_date'', ''2024-03-01'')]
     [(''fb'', ex_feed ''fb'' ''Feed B''
         [ex_entry ''four years old'' ''2020-01-01T00:00:00+0000'' ''g2''])]
   = Inl TypeError"
  by (simp add: filter_feeds_def filter_defs ex_defs)

text \<open>A negative limit does not keep the first entries: it drops the last ones.\<close>

lemma filter_negative_limit_example:
  "filter_feeds ex_env [(''limit'', ''-1'')]
     [(''fa'', ex_feed ''fa'' ''Feed A''
         [ex_entry ''Second'' june ''g2'', ex_entry ''First'' january ''g1''])]
   = Inr [ex_feed ''fa'' ''Feed A'' [ex_entry ''Second'' june ''g2'']]"
  by (simp add: filter_feeds_def filter_defs ex_defs)

section \<open>The order of an aggregate document\<close>

text \<open>
  When the sort returns, its result is the entries in descending order of their keys, and
  entries with equal keys keep the order they had.
\<close>

lemma sort_reverse_descending:
  assumes "sort_reverse kxs = Inr xs"
  shows "\<exists>kys. xs = map snd kys \<and> mset kys = mset kxs
           \<and> sorted (map (\<lambda>kx. - stamp (fst kx)) kys)
           \<and> (\<forall>t. filter (\<lambda>kx. stamp (fst kx) = t) kys = filter (\<lambda>kx. stamp (fst kx) = t) kxs)"
proof -
  let ?kys = "sort_key (\<lambda>kx. - stamp (fst kx)) kxs"
  from assms have "xs = map snd ?kys"
    by (auto simp: sort_reverse_def split: if_splits)
  moreover have "mset ?kys = mset kxs"
    by simp
  moreover have "sorted (map (\<lambda>kx. - stamp (fst kx)) ?kys)"
    by (rule sorted_sort_key)
  moreover have "filter (\<lambda>kx. stamp (fst kx) = t) ?kys = filter (\<lambda>kx. stamp (fst kx) = t) kxs" for t
    using sort_key_stable [of "\<lambda>kx. - stamp (fst kx)" "- t" kxs] by simp
  ultimately show ?thesis
    by blast
qed

text \<open>
  The document of all feeds is sorted by date, most recent first: for the store of the
  next theorem, Feed B's entry of June comes before Feed A's entry of January.
\<close>

lemma all_feeds_example:
  "get_all_feeds_xml ex_env 100 ''All Feeds'' ''http://localhost:5000/''
     [(''fb'', ex_feed ''fb'' ''Feed B'' [ex_entry ''Original Title'' june ''g2'']),
      (''fa'', ex_feed ''fa'' ''Feed A'' [ex_entry ''Original Title'' january ''g1''])]
   = Inr \<lparr>RssFeed.title = JStr ''All Feeds'',
          link = JStr ''http://localhost:5000/'',
          description = JStr ''Combination of all available feeds'',
          language = JStr ''en-US'',
          feed_id = JStr ex_id,
          entries = [ex_entry ''[Feed B] Original Title'' june ''g2'',
                     ex_entry ''[Feed A] Original Title'' january ''g1''],
          image_url = JNull\<rparr>"
  by (simp add: get_all_feeds_xml_def all_feeds_combined_def filter_defs ex_defs entry_copy_def
      sort_reverse_def FeedEntry_init_def py_str_def add_entry_def Let_def)

text \<open>
  The sort of the document of all feeds compares the dates of different feeds: a store
  that holds a date with an offset beside a date without one gets no document.
\<close>

lemma all_feeds_raises_example:
  "get_all_feeds_xml ex_env 100 ''All Feeds'' ''http://localhost:5000/''
     [(''fa'', ex_feed ''fa'' ''Feed A'' [ex_entry ''Original Title'' january ''g1'']),
      (''fb'', ex_feed ''fb'' ''Feed B''
         [ex_entry ''four years old'' ''2020-01-01T00:00:00+0000'' ''g2''])]
   = Inl TypeError"
  by (simp add: get_all_feeds_xml_def all_feeds_combined_def filter_defs ex_defs entry_copy_def
      sort_reverse_def FeedEntry_init_def py_str_def add_entry_def Let_def)

text \<open>
  Claim C4 fails on the code. \<^verbatim>\<open>search_feeds\<close> builds its document with the same two
  loops and never sorts. For the store that holds Feed B (entry of 2024-06-01) before Feed
  A (entry of 2024-01-01) and the query \<^verbatim>\<open>format=xml\<close>, Feed A's item comes first.
\<close>

theorem search_result_not_sorted:
  "search_feeds ex_env 100 ''http://localhost:5000/feeds/search?format=xml'' [(''format'', ''xml'')]
     [(''fb'', ex_feed ''fb'' ''Feed B'' [ex_entry ''Original Title'' june ''g2'']),
      (''fa'', ex_feed ''fa'' ''Feed A'' [ex_entry ''Original Title'' january ''g1''])]
   = Inr (AsXml
       \<lparr>RssFeed.title = JStr ''Search Results'',
          link = JStr ''http://localhost:5000/feeds/search?format=xml'',
          description = JStr ''Feeds filtered by parameters: {'format': 'xml'}'',
          language = JStr ''en-US'',
          feed_id = JStr ex_id,
          entries = [ex_entry ''[Feed A] Original Title'' january ''g1'',
                     ex_entry ''[Feed B] Original Title'' june ''g2''],
          image_url = JNull\<rparr>)"
  by (simp add: search_feeds_def filter_feeds_def filter_defs ex_defs entry_copy_def
      FeedEntry_init_def py_str_def add_entry_def Let_def)

end
